theory Spec2Isabelle
  imports Complex_Main "HOL-Library.Word" "HOL-Library.Char_ord" "HOL-Library.List_Lexorder"
    "HOL-Library.Multiset"
begin

section \<open>The wave-interference memory engine of Zero-Vector-7\<close>

text \<open>
  A shallow embedding of \<^verbatim>\<open>src/holographic/HolographicMemorySystem.ts\<close>,
  \<^verbatim>\<open>src/holographic/InterferenceEngine.ts\<close>,
  \<^verbatim>\<open>src/holographic/HolographicWaveEngine.ts\<close> and \<^verbatim>\<open>src/types/holographic.ts\<close>.

  Conventions of the embedding.
  \<^item> A JavaScript \<^verbatim>\<open>number\<close> that holds a measurement (amplitude, phase, frequency,
    coherence, a threshold) is a \<^typ>\<open>real\<close>, and arithmetic on it is exact. The only place
    where the source can produce \<^verbatim>\<open>NaN\<close> or \<^verbatim>\<open>Infinity\<close> from finite inputs, the
    division \<^verbatim>\<open>wave1.frequency / wave2.frequency\<close>, is written out. Two computations
    whose result depends on the rounding of IEEE doubles, the system coherence and the decay
    product, are given a second time with the rounding written out (the definitions whose
    names end in 64).
  \<^item> A \<^verbatim>\<open>Date\<close> is the \<^typ>\<open>int\<close> of its milliseconds. Every operation that reads the
    clock takes the reading \<open>now\<close> as an argument; one top-level call reads one value.
  \<^item> Identifiers built from \<^verbatim>\<open>Date.now()\<close> and \<^verbatim>\<open>Math.random()\<close> are arguments of the
    operation that draws them.
  \<^item> A JavaScript \<^verbatim>\<open>Map\<close> is an association list in insertion order, with the
    \<^verbatim>\<open>Map\<close> operations \<open>map_set\<close>, \<open>map_delete\<close>, \<open>map_has\<close>.
  \<^item> A string is a \<^typ>\<open>string\<close>; one \<^typ>\<open>char\<close> stands for one UTF-16 code unit, so
    the model covers strings whose code units are below 256.
  \<^item> \<^verbatim>\<open>async\<close> functions are modelled by their settled value: a rejected promise is
    \<open>Inl\<close> of an error.
\<close>

unbundle bit_operations_syntax

subsection \<open>JavaScript maps and strings\<close>

fun map_set :: "'k \<Rightarrow> 'v \<Rightarrow> ('k \<times> 'v) list \<Rightarrow> ('k \<times> 'v) list" where
  "map_set k v [] = [(k, v)]"
| "map_set k v ((k', v') # m) = (if k' = k then (k, v) # m else (k', v') # map_set k v m)"

definition map_delete :: "'k \<Rightarrow> ('k \<times> 'v) list \<Rightarrow> ('k \<times> 'v) list" where
  "map_delete k m = filter (\<lambda>kv. fst kv \<noteq> k) m"

definition map_has :: "'k \<Rightarrow> ('k \<times> 'v) list \<Rightarrow> bool" where
  "map_has k m = (k \<in> set (map fst m))"

definition map_values :: "('k \<times> 'v) list \<Rightarrow> 'v list" where
  "map_values m = map snd m"

text \<open>\<^verbatim>\<open>String.prototype.toLowerCase\<close> on code units below 256: the letters A..Z and the
  upper-case letters of Latin-1 (\<^verbatim>\<open>0xC0\<close>..\<^verbatim>\<open>0xDE\<close> without the multiplication sign
  \<^verbatim>\<open>0xD7\<close>) go to the code unit 32 above; every other code unit is left as it is.\<close>

definition toLowerChar :: "char \<Rightarrow> char" where
  "toLowerChar c =
     (case map_of
        (zip (''ABCDEFGHIJKLMNOPQRSTUVWXYZ''
              @ [CHR 0xC0, CHR 0xC1, CHR 0xC2, CHR 0xC3, CHR 0xC4, CHR 0xC5, CHR 0xC6, CHR 0xC7,
                 CHR 0xC8, CHR 0xC9, CHR 0xCA, CHR 0xCB, CHR 0xCC, CHR 0xCD, CHR 0xCE, CHR 0xCF,
                 CHR 0xD0, CHR 0xD1, CHR 0xD2, CHR 0xD3, CHR 0xD4, CHR 0xD5, CHR 0xD6,
                 CHR 0xD8, CHR 0xD9, CHR 0xDA, CHR 0xDB, CHR 0xDC, CHR 0xDD, CHR 0xDE])
             (''abcdefghijklmnopqrstuvwxyz''
              @ [CHR 0xE0, CHR 0xE1, CHR 0xE2, CHR 0xE3, CHR 0xE4, CHR 0xE5, CHR 0xE6, CHR 0xE7,
                 CHR 0xE8, CHR 0xE9, CHR 0xEA, CHR 0xEB, CHR 0xEC, CHR 0xED, CHR 0xEE, CHR 0xEF,
                 CHR 0xF0, CHR 0xF1, CHR 0xF2, CHR 0xF3, CHR 0xF4, CHR 0xF5, CHR 0xF6,
                 CHR 0xF8, CHR 0xF9, CHR 0xFA, CHR 0xFB, CHR 0xFC, CHR 0xFD, CHR 0xFE])) c of
        None \<Rightarrow> c | Some l \<Rightarrow> l)"

definition toLowerCase :: "string \<Rightarrow> string" where
  "toLowerCase s = map toLowerChar s"

text \<open>\<^verbatim>\<open>s.split(d)\<close> for a one-character separator: \<^verbatim>\<open>"".split(" ")\<close> is \<^verbatim>\<open>[""]\<close>,
  and two adjacent separators give an empty word.\<close>

fun split_on :: "char \<Rightarrow> string \<Rightarrow> string list" where
  "split_on d [] = [[]]"
| "split_on d (c # cs) =
     (if c = d then [] # split_on d cs
      else (case split_on d cs of [] \<Rightarrow> [[c]] | w # ws \<Rightarrow> (c # w) # ws))"

definition isSpace :: "char \<Rightarrow> bool" where
  "isSpace c = (c \<in> set [CHR 0x20, CHR 0x09, CHR 0x0A, CHR 0x0B, CHR 0x0C, CHR 0x0D, CHR 0xA0])"

text \<open>\<^verbatim>\<open>s.split(/\s+/)\<close>: a maximal run of white space is one separator.\<close>

fun split_ws :: "string \<Rightarrow> string list" where
  "split_ws [] = [[]]"
| "split_ws (c # cs) =
     (if isSpace c then (if cs \<noteq> [] \<and> isSpace (hd cs) then split_ws cs else [] # split_ws cs)
      else (case split_ws cs of [] \<Rightarrow> [[c]] | w # ws \<Rightarrow> (c # w) # ws))"

definition startsWith :: "string \<Rightarrow> string \<Rightarrow> bool" where
  "startsWith s t = (take (length t) s = t)"

text \<open>\<^verbatim>\<open>s.includes(t)\<close>: \<open>t\<close> occurs in \<open>s\<close> as a contiguous substring.\<close>

fun str_includes :: "string \<Rightarrow> string \<Rightarrow> bool" where
  "str_includes [] t = (t = [])"
| "str_includes (c # cs) t = (startsWith (c # cs) t \<or> str_includes cs t)"

definition trim :: "string \<Rightarrow> string" where
  "trim s = rev (dropWhile isSpace (rev (dropWhile isSpace s)))"

fun join :: "string \<Rightarrow> string list \<Rightarrow> string" where
  "join sep [] = []"
| "join sep [w] = w"
| "join sep (w # ws) = w @ sep @ join sep ws"

subsection \<open>Types (\<^verbatim>\<open>types/holographic.ts\<close>)\<close>

datatype WaveType = CONTEXT | INTENT | CONFIDENCE | TEMPORAL | MEMORY | PERSONA | REASONING | VISUAL

fun WaveFrequencies :: "WaveType \<Rightarrow> real" where
  "WaveFrequencies CONTEXT = 0.5"
| "WaveFrequencies INTENT = 1.0"
| "WaveFrequencies CONFIDENCE = 2.0"
| "WaveFrequencies TEMPORAL = 0.8"
| "WaveFrequencies MEMORY = 0.3"
| "WaveFrequencies PERSONA = 0.2"
| "WaveFrequencies REASONING = 1.2"
| "WaveFrequencies VISUAL = 1.5"

text \<open>\<^verbatim>\<open>HolographicFragment\<close>. The type of the timestamp is a parameter: a fragment in memory
  carries a valid \<^verbatim>\<open>Date\<close> (an \<^typ>\<open>int\<close>), a fragment read back from
  \<^verbatim>\<open>localStorage\<close> carries whatever the JSON held.\<close>

record 't Fragment =
  f_id :: string
  f_content :: string
  f_sourceRegion :: string
  f_waveType :: WaveType
  f_frequency :: real
  f_amplitude :: real
  f_phase :: real
  f_timestamp :: 't
  f_importance :: real
  f_coherenceSignature :: string
  f_sessionId :: string

type_synonym HolographicFragment = "int Fragment"

text \<open>The \<^verbatim>\<open>timestamp\<close> of a persisted entry after \<^verbatim>\<open>JSON.parse\<close>, classified by what
  \<^verbatim>\<open>typeof\<close> and \<^verbatim>\<open>new Date\<close> make of it: absent, a JSON number, a string that
  \<^verbatim>\<open>new Date\<close> turns into an invalid date, or a string that parses to the given
  milliseconds (what \<^verbatim>\<open>JSON.stringify\<close> writes for a valid \<^verbatim>\<open>Date\<close>).\<close>

datatype RawTimestamp = TsMissing | TsNumber int | TsUnparsable string | TsIso int

type_synonym PersistedFragment = "RawTimestamp Fragment"

text \<open>A value of the object that \<^verbatim>\<open>JSON.parse\<close> makes of the stored item, by what the code
  does with it: \<^verbatim>\<open>null\<close>, where reading a property throws; a number, string or boolean,
  where reading a property gives \<^verbatim>\<open>undefined\<close>; or an object, taken with the fields of a
  fragment and the timestamp as found (an array, or an object of another shape, has no
  timestamp).\<close>

datatype PersistedEntry = NullEntry | ScalarEntry | ObjectEntry PersistedFragment

text \<open>The exception of a property read on \<^verbatim>\<open>null\<close> or \<^verbatim>\<open>undefined\<close>.\<close>

datatype error = TypeError

record HolographicConfig =
  constructiveThreshold :: real
  destructiveThreshold :: real
  emergentThreshold :: real
  coherenceDecayRate :: real
  maxFragmentsPerRegion :: nat
  reconstructionThreshold :: real
  fragmentPersistence :: real
  crossSessionEnabled :: bool
  degradationEnabled :: bool
  reconstructionAttempts :: nat
  minimumCoherence :: real
  fallbackRegions :: "string list"

subsection \<open>Phase and coherence signature\<close>

text \<open>The loop \<^verbatim>\<open>hash = ((hash << 5) - hash + str.charCodeAt(i)) & 0xffffffff\<close>: the value
  is a signed 32-bit integer after every step, so the arithmetic is that of \<^typ>\<open>32 word\<close>.\<close>

fun hashLoop :: "32 word \<Rightarrow> nat list \<Rightarrow> 32 word" where
  "hashLoop h [] = h"
| "hashLoop h (c # cs) = hashLoop (push_bit 5 h - h + of_nat c) cs"

definition phaseOfHash :: "32 word \<Rightarrow> real" where
  "phaseOfHash h = real (nat \<bar>sint h\<bar> mod 628) / 100"

definition charCodes :: "string \<Rightarrow> nat list" where
  "charCodes s = map of_char s"

definition calculatePhase :: "string \<Rightarrow> string \<Rightarrow> real" where
  "calculatePhase content sourceRegion = phaseOfHash (hashLoop 0 (charCodes (content @ sourceRegion)))"

definition generateCoherenceSignature :: "string \<Rightarrow> string" where
  "generateCoherenceSignature content =
     (let words = filter (\<lambda>w. length w > 3) (split_on CHR '' '' (toLowerCase content))
      in join ''|'' (sort (take 5 words)))"

subsection \<open>HolographicMemorySystem: state, storing and eviction\<close>

text \<open>The three private maps of the class and the \<^verbatim>\<open>localStorage\<close> item
  \<^verbatim>\<open>zv6_holographic_fragments\<close>: \<open>None\<close> when the item is absent, empty or not JSON
  (then \<^verbatim>\<open>getPersistedFragments\<close> answers the empty object), otherwise the entries of the
  parsed object in the order of \<^verbatim>\<open>Object.values\<close>. An item that parses to something other
  than an object is not covered.\<close>

record MemoryState =
  fragments :: "(string \<times> HolographicFragment) list"
  coherenceMap :: "(string \<times> real) list"
  reconstructionCache :: "(string \<times> string) list"
  localStorage :: "(string \<times> PersistedEntry) list option"

definition withTimestamp :: "'u \<Rightarrow> 't Fragment \<Rightarrow> 'u Fragment" where
  "withTimestamp t f =
     \<lparr> f_id = f_id f, f_content = f_content f, f_sourceRegion = f_sourceRegion f,
       f_waveType = f_waveType f, f_frequency = f_frequency f, f_amplitude = f_amplitude f,
       f_phase = f_phase f, f_timestamp = t, f_importance = f_importance f,
       f_coherenceSignature = f_coherenceSignature f, f_sessionId = f_sessionId f \<rparr>"

definition sevenDays :: int where
  "sevenDays = 7 * 24 * 60 * 60 * 1000"

definition updateCoherenceMap :: "HolographicFragment \<Rightarrow> MemoryState \<Rightarrow> MemoryState" where
  "updateCoherenceMap fragment s =
     s\<lparr>coherenceMap := map_set (f_id fragment) (f_amplitude fragment) (coherenceMap s)\<rparr>"

definition getPersistedFragments :: "MemoryState \<Rightarrow> (string \<times> PersistedEntry) list" where
  "getPersistedFragments s = (case localStorage s of None \<Rightarrow> [] | Some m \<Rightarrow> m)"

text \<open>\<^verbatim>\<open>new Date(f.timestamp).getTime()\<close> in the filter of \<^verbatim>\<open>persistFragment\<close>;
  \<open>None\<close> is \<^verbatim>\<open>NaN\<close>.\<close>

fun rawTime :: "RawTimestamp \<Rightarrow> int option" where
  "rawTime TsMissing = None"
| "rawTime (TsNumber n) = Some n"
| "rawTime (TsUnparsable x) = None"
| "rawTime (TsIso t) = Some t"

text \<open>The filter of \<^verbatim>\<open>persistFragment\<close>: for \<^verbatim>\<open>null\<close> the read of \<^verbatim>\<open>f.timestamp\<close>
  throws and the \<^verbatim>\<open>catch\<close> answers \<^verbatim>\<open>false\<close>; for a number, string or boolean the
  date is invalid and the comparison with \<^verbatim>\<open>NaN\<close> is false.\<close>

fun isRecent :: "int \<Rightarrow> PersistedEntry \<Rightarrow> bool" where
  "isRecent now (ObjectEntry f) =
     (case rawTime (f_timestamp f) of None \<Rightarrow> False | Some t \<Rightarrow> now - t < sevenDays)"
| "isRecent now NullEntry = False"
| "isRecent now ScalarEntry = False"

text \<open>\<^verbatim>\<open>persistFragment\<close>. The \<^verbatim>\<open>reduce\<close> keys every entry that passed the filter by its
  own \<^verbatim>\<open>id\<close>; only objects pass the filter.\<close>

definition persistFragment :: "int \<Rightarrow> HolographicFragment \<Rightarrow> MemoryState \<Rightarrow> MemoryState" where
  "persistFragment now fragment s =
     (let persistedFragments =
            map_set (f_id fragment)
              (ObjectEntry (withTimestamp (TsIso (f_timestamp fragment)) fragment))
              (getPersistedFragments s);
          recent = filter (isRecent now) (map_values persistedFragments);
          recentFragments =
            fold (\<lambda>e acc. case e of ObjectEntry f \<Rightarrow> map_set (f_id f) e acc | _ \<Rightarrow> acc) recent []
      in s\<lparr>localStorage := Some recentFragments\<rparr>)"

text \<open>\<^verbatim>\<open>cleanupOldFragments\<close>: the fragments of the region, sorted by the comparator
  \<^verbatim>\<open>timestampB - timestampA\<close> (newest first; \<^verbatim>\<open>Array.prototype.sort\<close> is stable, as
  \<^const>\<open>sort_key\<close> is), and everything after the first \<^verbatim>\<open>maxFragmentsPerRegion\<close> deleted.\<close>

definition cleanupOldFragments :: "HolographicConfig \<Rightarrow> string \<Rightarrow> MemoryState \<Rightarrow> MemoryState" where
  "cleanupOldFragments cfg sourceRegion s =
     (let regionFragments =
            sort_key (\<lambda>f. - f_timestamp f)
              (filter (\<lambda>f. f_sourceRegion f = sourceRegion) (map_values (fragments s)))
      in if length regionFragments > maxFragmentsPerRegion cfg
         then fold (\<lambda>fragment st.
                      st\<lparr>fragments := map_delete (f_id fragment) (fragments st),
                         coherenceMap := map_delete (f_id fragment) (coherenceMap st)\<rparr>)
                (drop (maxFragmentsPerRegion cfg) regionFragments) s
         else s)"

text \<open>\<^verbatim>\<open>storeFragment\<close>. \<open>now\<close> is the value of \<^verbatim>\<open>new Date()\<close> and \<open>fid\<close> the
  identifier drawn by \<^verbatim>\<open>generateFragmentId\<close>; \<open>newFragment\<close> is the object literal. The
  result is the identifier and the new state; there is no failing branch.\<close>

definition newFragment ::
  "int \<Rightarrow> string \<Rightarrow> string \<Rightarrow> string \<Rightarrow> WaveType \<Rightarrow> real \<Rightarrow> string \<Rightarrow> HolographicFragment" where
  "newFragment now fid content sourceRegion waveType importance sessionId =
     \<lparr> f_id = fid, f_content = content, f_sourceRegion = sourceRegion,
       f_waveType = waveType, f_frequency = WaveFrequencies waveType,
       f_amplitude = importance, f_phase = calculatePhase content sourceRegion,
       f_timestamp = now, f_importance = importance,
       f_coherenceSignature = generateCoherenceSignature content,
       f_sessionId = sessionId \<rparr>"

definition storeFragment ::
  "HolographicConfig \<Rightarrow> int \<Rightarrow> string \<Rightarrow> string \<Rightarrow> string \<Rightarrow> WaveType \<Rightarrow> real \<Rightarrow> string \<Rightarrow>
     MemoryState \<Rightarrow> string \<times> MemoryState" where
  "storeFragment cfg now fid content sourceRegion waveType importance sessionId s =
     (let fragment = newFragment now fid content sourceRegion waveType importance sessionId;
          s1 = s\<lparr>fragments := map_set (f_id fragment) fragment (fragments s)\<rparr>;
          s2 = updateCoherenceMap fragment s1;
          s3 = (if crossSessionEnabled cfg then persistFragment now fragment s2 else s2);
          s4 = cleanupOldFragments cfg sourceRegion s3
      in (f_id fragment, s4))"

definition getFragmentCount :: "MemoryState \<Rightarrow> nat" where
  "getFragmentCount s = length (fragments s)"

definition getFragmentsByRegion :: "string \<Rightarrow> MemoryState \<Rightarrow> HolographicFragment list" where
  "getFragmentsByRegion region s =
     filter (\<lambda>f. f_sourceRegion f = region) (map_values (fragments s))"

definition clearCache :: "MemoryState \<Rightarrow> MemoryState" where
  "clearCache s = s\<lparr>reconstructionCache := []\<rparr>"

definition flushAllMemory :: "HolographicConfig \<Rightarrow> MemoryState \<Rightarrow> MemoryState" where
  "flushAllMemory cfg s =
     \<lparr> fragments = [], coherenceMap = [], reconstructionCache = [],
       localStorage = (if crossSessionEnabled cfg then None else localStorage s) \<rparr>"

subsection \<open>HolographicMemorySystem: loading persisted fragments\<close>

text \<open>The body of the \<^verbatim>\<open>try\<close> in the \<^verbatim>\<open>forEach\<close> of \<^verbatim>\<open>loadPersistedFragments\<close>
  for an entry that is an object. An entry whose timestamp is not a string, or is a string
  that does not parse, takes the early \<^verbatim>\<open>return\<close>; the others are decayed by
  \<^verbatim>\<open>Math.exp(-age / (7 * 24 * 60 * 60 * 1000))\<close> (\<open>decayFactorAt\<close>) and kept when the
  decayed amplitude exceeds 0.1.\<close>

definition decayFactorAt :: "int \<Rightarrow> int \<Rightarrow> real" where
  "decayFactorAt now t = (let age = now - t in exp (- real_of_int age / real_of_int sevenDays))"

definition restoreFragment :: "int \<Rightarrow> PersistedFragment \<Rightarrow> MemoryState \<Rightarrow> MemoryState" where
  "restoreFragment now fragment s =
     (case f_timestamp fragment of
        TsIso t \<Rightarrow>
          (let decayFactor = decayFactorAt now t;
               restored = (withTimestamp t fragment)\<lparr>f_amplitude := f_amplitude fragment * decayFactor\<rparr>
           in if f_amplitude restored > 0.1
              then updateCoherenceMap restored
                     (s\<lparr>fragments := map_set (f_id restored) restored (fragments s)\<rparr>)
              else s)
      | _ \<Rightarrow> s)"

text \<open>The callback of the \<^verbatim>\<open>forEach\<close> for one entry. For \<^verbatim>\<open>null\<close> the read of
  \<^verbatim>\<open>fragment.timestamp\<close> throws inside the \<^verbatim>\<open>try\<close>, and the handler throws again when
  it reads \<^verbatim>\<open>fragment.id\<close> for its message: the exception leaves the callback. For a
  number, string or boolean the timestamp reads as \<^verbatim>\<open>undefined\<close> and the entry takes the
  early \<^verbatim>\<open>return\<close>.\<close>

fun loadEntry :: "int \<Rightarrow> PersistedEntry \<Rightarrow> MemoryState \<Rightarrow> error + MemoryState" where
  "loadEntry now NullEntry s = Inl TypeError"
| "loadEntry now ScalarEntry s = Inr s"
| "loadEntry now (ObjectEntry fragment) s = Inr (restoreFragment now fragment s)"

text \<open>The \<^verbatim>\<open>forEach\<close> inside the outer \<^verbatim>\<open>try\<close>: an exception that leaves the callback ends
  the iteration, the outer handler only logs it, and what was loaded before stays.\<close>

fun loadEntries :: "int \<Rightarrow> PersistedEntry list \<Rightarrow> MemoryState \<Rightarrow> MemoryState" where
  "loadEntries now [] s = s"
| "loadEntries now (e # es) s =
     (case loadEntry now e s of Inl err \<Rightarrow> s | Inr s' \<Rightarrow> loadEntries now es s')"

definition loadPersistedFragments :: "HolographicConfig \<Rightarrow> int \<Rightarrow> MemoryState \<Rightarrow> MemoryState" where
  "loadPersistedFragments cfg now s =
     (if \<not> crossSessionEnabled cfg then s
      else loadEntries now (map_values (getPersistedFragments s)) s)"

text \<open>The constructor: empty maps, then the load from the given \<^verbatim>\<open>localStorage\<close> item.\<close>

definition newMemorySystem ::
  "HolographicConfig \<Rightarrow> int \<Rightarrow> (string \<times> PersistedEntry) list option \<Rightarrow> MemoryState" where
  "newMemorySystem cfg now stored =
     loadPersistedFragments cfg now
       \<lparr> fragments = [], coherenceMap = [], reconstructionCache = [], localStorage = stored \<rparr>"

subsection \<open>HolographicMemorySystem: reconstruction\<close>

text \<open>The \<^verbatim>\<open>targetContext: any\<close> of \<^verbatim>\<open>reconstructInformation\<close>, by what the function reads
  of it: \<^verbatim>\<open>JSON.stringify(targetContext)\<close> and \<^verbatim>\<open>targetContext.type\<close>.
  \<^item> \<open>Unserializable\<close>: \<^verbatim>\<open>undefined\<close>, a function or a symbol; \<^verbatim>\<open>JSON.stringify\<close>
    answers \<^verbatim>\<open>undefined\<close>.
  \<^item> \<open>NullContext\<close>: \<^verbatim>\<open>null\<close>; it serializes to \<^verbatim>\<open>null\<close> and reading
    \<^verbatim>\<open>targetContext.type\<close> throws.
  \<^item> \<open>Context json ty\<close>: any other value, with its serialization and the wave type that
    its \<^verbatim>\<open>type\<close> property names (\<open>None\<close> when the property is absent, falsy or not the
    name of a wave type).\<close>

datatype TargetContext = Unserializable | NullContext | Context string "WaveType option"

fun stringify :: "TargetContext \<Rightarrow> string" where
  "stringify (Context json ty) = json"
| "stringify NullContext = ''null''"
| "stringify Unserializable = ''undefined''"

text \<open>The score that the body of the loop of \<^verbatim>\<open>findRelevantFragments\<close> computes for one
  fragment. A timestamp in memory is always a valid date, so the temporal term is always
  added.\<close>

definition relevanceScore :: "int \<Rightarrow> string \<Rightarrow> WaveType option \<Rightarrow> HolographicFragment \<Rightarrow> real" where
  "relevanceScore now contextString ctxType fragment =
     (let contentWords = split_on CHR '' '' (toLowerCase (f_content fragment));
          contextWords = split_on CHR '' '' contextString;
          commonWords =
            filter (\<lambda>word. list_ex (\<lambda>contextWord.
                       str_includes contextWord word \<or> str_includes word contextWord) contextWords)
              contentWords;
          score1 = real (length commonWords) * 0.1;
          score2 = (if ctxType = Some (f_waveType fragment) then score1 + 0.3 else score1);
          ageHours = real_of_int (now - f_timestamp fragment) / (1000 * 60 * 60);
          temporalBoost = max 0 (1 - ageHours / 24);
          score3 = score2 + temporalBoost * 0.2
      in score3 * f_importance fragment)"

text \<open>For \<^verbatim>\<open>null\<close> every iteration throws at \<^verbatim>\<open>targetContext.type\<close> and is caught, so
  no fragment is collected. The result is sorted by \<^verbatim>\<open>b.importance - a.importance\<close>.\<close>

fun findRelevantFragments :: "int \<Rightarrow> TargetContext \<Rightarrow> MemoryState \<Rightarrow> HolographicFragment list" where
  "findRelevantFragments now (Context json ty) s =
     sort_key (\<lambda>f. - f_importance f)
       (filter (\<lambda>fragment. relevanceScore now (toLowerCase json) ty fragment > 0.2)
          (map_values (fragments s)))"
| "findRelevantFragments now NullContext s = []"
| "findRelevantFragments now Unserializable s = []"

definition calculateFragmentCoherence :: "HolographicFragment \<Rightarrow> HolographicFragment \<Rightarrow> real" where
  "calculateFragmentCoherence frag1 frag2 =
     (let freqDiff = \<bar>f_frequency frag1 - f_frequency frag2\<bar>;
          freqCoherence = exp (- freqDiff);
          phaseDiff = \<bar>f_phase frag1 - f_phase frag2\<bar>;
          phaseCoherence = cos phaseDiff;
          content1Words = split_on CHR '' '' (toLowerCase (f_content frag1));
          content2Words = split_on CHR '' '' (toLowerCase (f_content frag2));
          commonWords = filter (\<lambda>word. word \<in> set content2Words) content1Words;
          contentCoherence =
            real (length commonWords) / real (max (length content1Words) (length content2Words))
      in freqCoherence * 0.3 + phaseCoherence * 0.3 + contentCoherence * 0.4)"

text \<open>The pairs \<open>(xs ! i, xs ! j)\<close> with \<open>i < j\<close>, in the order of the two nested loops.\<close>

fun pairs :: "'a list \<Rightarrow> ('a \<times> 'a) list" where
  "pairs [] = []"
| "pairs (x # xs) = map (Pair x) xs @ pairs xs"

definition assessReconstructionViability :: "HolographicFragment list \<Rightarrow> real" where
  "assessReconstructionViability frags =
     (if frags = [] then 0
      else
        let totalCoherence = sum_list (map (\<lambda>(a, b). calculateFragmentCoherence a b) (pairs frags));
            pairCount = length (pairs frags);
            averageCoherence = (if pairCount > 0 then totalCoherence / real pairCount else 0);
            countBoost = min 1 (real (length frags) / 5)
        in averageCoherence * 0.7 + countBoost * 0.3)"

text \<open>\<^verbatim>\<open>[...new Set(xs)]\<close>: the first occurrence of every element, in order.\<close>

definition uniqueInOrder :: "'a list \<Rightarrow> 'a list" where
  "uniqueInOrder xs = rev (remdups (rev xs))"

text \<open>\<^verbatim>\<open>performHolographicReconstruction\<close>. The frequency map that the source also builds is
  never read, so it is left out.\<close>

definition performHolographicReconstruction :: "HolographicFragment list \<Rightarrow> string" where
  "performHolographicReconstruction frags =
     (let uniqueContent = uniqueInOrder (map f_content frags);
          reconstructed =
            fold (\<lambda>content acc.
                    let relevantFragments =
                          filter (\<lambda>f. str_includes (f_content f) (take 50 content)) frags;
                        totalAmplitude = sum_list (map f_amplitude relevantFragments)
                    in if totalAmplitude > 0.3 then acc @ content @ '' '' else acc)
              uniqueContent []
      in trim reconstructed)"

text \<open>\<^verbatim>\<open>reconstructInformation\<close>. For an unserializable context the cache key is
  \<^verbatim>\<open>undefined\<close>, which is never a key of the cache, and \<^verbatim>\<open>findRelevantFragments\<close> throws at
  \<^verbatim>\<open>JSON.stringify(targetContext).toLowerCase()\<close>: the promise is rejected.\<close>

definition reconstructInformation ::
  "int \<Rightarrow> TargetContext \<Rightarrow> real \<Rightarrow> MemoryState \<Rightarrow> (error + string option) \<times> MemoryState" where
  "reconstructInformation now targetContext requiredCoherence s =
     (if targetContext = Unserializable then (Inl TypeError, s)
      else
        let cacheKey = stringify targetContext in
        case map_of (reconstructionCache s) cacheKey of
          Some cached \<Rightarrow> (Inr (Some cached), s)
        | None \<Rightarrow>
            let relevantFragments = findRelevantFragments now targetContext s in
            if relevantFragments = [] then (Inr None, s)
            else if assessReconstructionViability relevantFragments < requiredCoherence
            then (Inr None, s)
            else
              let reconstructed = performHolographicReconstruction relevantFragments
              in (Inr (Some reconstructed),
                  s\<lparr>reconstructionCache := map_set cacheKey reconstructed (reconstructionCache s)\<rparr>))"

subsection \<open>InterferenceEngine\<close>

text \<open>The \<^verbatim>\<open>content: any\<close> of a wave, by what \<^verbatim>\<open>extractTextContent\<close> and
  \<^verbatim>\<open>extractText\<close> read of it: a string; an object, with its string properties
  \<^verbatim>\<open>text\<close>, \<^verbatim>\<open>content\<close>, \<^verbatim>\<open>message\<close> (\<open>None\<close> when absent) and its
  \<^verbatim>\<open>JSON.stringify\<close>; or another primitive, with its \<^verbatim>\<open>String(content)\<close>.\<close>

datatype WaveContent =
    TextContent string
  | ObjectContent "string option" "string option" "string option" string
  | PrimitiveContent string

record HolographicWave =
  w_id :: string
  w_sourceRegion :: string
  w_targetRegions :: "string list"
  w_waveType :: WaveType
  w_frequency :: real
  w_phase :: real
  w_amplitude :: real
  w_content :: WaveContent
  w_memoryFragmentIds :: "string list"
  w_timestamp :: int

record InterferencePattern =
  p_id :: string
  p_waveIds :: "string list"
  p_resultantAmplitude :: real
  p_resultantFrequency :: real
  p_coherenceLevel :: real
  p_emergentContent :: "string option"
  p_constructive :: bool
  p_timestamp :: int

datatype BehaviorType = SYNTHESIS | INSIGHT | CONTRADICTION | CORRELATION

record EmergentBehavior =
  b_id :: string
  b_triggerPattern :: InterferencePattern
  b_behaviorType :: BehaviorType
  b_confidence :: real
  b_insight :: string
  b_timestamp :: int

record InterferenceState =
  activePatterns :: "(string \<times> InterferencePattern) list"
  emergentBehaviors :: "(string \<times> EmergentBehavior) list"

text \<open>What one top-level call reads from outside: the clock, and the identifiers it draws
  (the \<open>k\<close>-th call of each generator within the call).\<close>

record Env =
  e_now :: int
  e_waveId :: string
  e_fragmentIds :: "nat \<Rightarrow> string"
  e_sessionIds :: "nat \<Rightarrow> string"
  e_patternIds :: "nat \<Rightarrow> string"
  e_behaviorIds :: "nat \<Rightarrow> string"

text \<open>A string is truthy when it is not empty.\<close>

fun truthy :: "string option \<Rightarrow> bool" where
  "truthy None = False"
| "truthy (Some x) = (x \<noteq> [])"

fun extractText :: "WaveContent \<Rightarrow> string" where
  "extractText (TextContent x) = x"
| "extractText (ObjectContent text content message json) =
     (if truthy text then the text
      else if truthy content then the content
      else if truthy message then the message
      else json)"
| "extractText (PrimitiveContent x) = x"

text \<open>The double quote character of the template string.\<close>

definition quote :: string where
  "quote = [CHR 0x22]"

definition synthesizeContent :: "WaveContent \<Rightarrow> WaveContent \<Rightarrow> real \<Rightarrow> string option" where
  "synthesizeContent content1 content2 coherenceLevel =
     (if coherenceLevel < 0.5 then None
      else
        let text1 = extractText content1; text2 = extractText content2 in
        if text1 = [] \<or> text2 = [] then None
        else
          let words1 = split_ws (toLowerCase text1);
              words2 = split_ws (toLowerCase text2);
              commonWords = filter (\<lambda>word. word \<in> set words2 \<and> length word > 3) words1
          in if length commonWords > 0
             then Some (''Emergent insight: Connection between '' @ quote @ take 50 text1
                        @ quote @ '' and '' @ quote @ take 50 text2 @ quote
                        @ '' through common elements: '' @ join '', '' (take 3 commonWords))
             else None)"

text \<open>\<^verbatim>\<open>Math.exp(-Math.abs(wave1.frequency / wave2.frequency - 1))\<close>. Division by zero is
  written out: \<^verbatim>\<open>0 / 0\<close> is \<^verbatim>\<open>NaN\<close> (\<open>None\<close>), and \<^verbatim>\<open>x / 0\<close> for another \<open>x\<close> is
  an infinity, whose term is \<^verbatim>\<open>Math.exp(-Infinity) = 0\<close>.\<close>

definition frequencyCoherence :: "real \<Rightarrow> real \<Rightarrow> real option" where
  "frequencyCoherence f1 f2 =
     (if f2 = 0 then (if f1 = 0 then None else Some 0)
      else Some (exp (- \<bar>f1 / f2 - 1\<bar>)))"

text \<open>\<^verbatim>\<open>calculateInterference\<close>; \<open>None\<close> stands for the pattern whose coherence level is
  \<^verbatim>\<open>NaN\<close>, which no comparison retains.\<close>

definition calculateInterference ::
  "int \<Rightarrow> string \<Rightarrow> HolographicWave \<Rightarrow> HolographicWave \<Rightarrow> InterferencePattern option" where
  "calculateInterference now pid wave1 wave2 =
     (let phaseDifference = \<bar>w_phase wave1 - w_phase wave2\<bar>;
          constructive = (phaseDifference < pi / 4);
          resultantAmplitude =
            (if constructive then w_amplitude wave1 * w_amplitude wave2 * cos phaseDifference
             else w_amplitude wave1 * w_amplitude wave2 * sin phaseDifference);
          phaseCoherence = cos phaseDifference
      in case frequencyCoherence (w_frequency wave1) (w_frequency wave2) of
           None \<Rightarrow> None
         | Some freqCoherence \<Rightarrow>
             let coherenceLevel = (phaseCoherence + freqCoherence) / 2;
                 emergentContent = synthesizeContent (w_content wave1) (w_content wave2) coherenceLevel
             in Some \<lparr> p_id = pid, p_waveIds = [w_id wave1, w_id wave2],
                       p_resultantAmplitude = resultantAmplitude,
                       p_resultantFrequency = (w_frequency wave1 + w_frequency wave2) / 2,
                       p_coherenceLevel = coherenceLevel,
                       p_emergentContent = emergentContent,
                       p_constructive = constructive,
                       p_timestamp = now \<rparr>)"

definition classifyBehaviorType :: "InterferencePattern \<Rightarrow> BehaviorType" where
  "classifyBehaviorType interference =
     (if p_coherenceLevel interference > 0.8 \<and> p_constructive interference
         \<and> p_resultantAmplitude interference > 0.7 then SYNTHESIS
      else if p_coherenceLevel interference > 0.7 \<and> p_constructive interference then INSIGHT
      else if \<not> p_constructive interference \<and> p_coherenceLevel interference > 0.6 then CONTRADICTION
      else CORRELATION)"

definition patternId :: "HolographicWave \<Rightarrow> HolographicWave \<Rightarrow> string" where
  "patternId wave1 wave2 = w_id wave1 @ ''-'' @ w_id wave2"

text \<open>The pairs that the nested loops of \<^verbatim>\<open>processWaveInterference\<close> retain, in loop order,
  each with its key; the \<open>k\<close>-th pair draws the \<open>k\<close>-th pattern identifier.\<close>

definition retainedPairs ::
  "HolographicConfig \<Rightarrow> Env \<Rightarrow> HolographicWave list \<Rightarrow> (string \<times> InterferencePattern) list" where
  "retainedPairs cfg env waves =
     List.map_filter
       (\<lambda>(k, (wave1, wave2)).
          case calculateInterference (e_now env) (e_patternIds env k) wave1 wave2 of
            None \<Rightarrow> None
          | Some interference \<Rightarrow>
              if p_coherenceLevel interference > constructiveThreshold cfg
              then Some (patternId wave1 wave2, interference) else None)
       (enumerate 0 (pairs waves))"

definition setAll :: "('k \<times> 'v) list \<Rightarrow> ('k \<times> 'v) list \<Rightarrow> ('k \<times> 'v) list" where
  "setAll kvs m = fold (\<lambda>kv acc. map_set (fst kv) (snd kv) acc) kvs m"

text \<open>The behaviours that \<^verbatim>\<open>detectEmergentPatterns\<close> creates, in the iteration order of the
  result map; the \<open>k\<close>-th one draws the \<open>k\<close>-th behaviour identifier.\<close>

definition qualifies :: "HolographicConfig \<Rightarrow> InterferencePattern \<Rightarrow> bool" where
  "qualifies cfg interference =
     (p_coherenceLevel interference > emergentThreshold cfg \<and> truthy (p_emergentContent interference))"

definition makeBehavior :: "int \<Rightarrow> string \<Rightarrow> InterferencePattern \<Rightarrow> EmergentBehavior" where
  "makeBehavior now bid interference =
     \<lparr> b_id = bid, b_triggerPattern = interference,
       b_behaviorType = classifyBehaviorType interference,
       b_confidence = p_coherenceLevel interference,
       b_insight = the (p_emergentContent interference),
       b_timestamp = now \<rparr>"

definition detectEmergentPatterns ::
  "HolographicConfig \<Rightarrow> Env \<Rightarrow> (string \<times> InterferencePattern) list \<Rightarrow> InterferenceState \<Rightarrow>
     EmergentBehavior list \<times> InterferenceState" where
  "detectEmergentPatterns cfg env interferenceResults st =
     (let patterns =
            map (\<lambda>(k, interference). makeBehavior (e_now env) (e_behaviorIds env k) interference)
              (enumerate 0 (filter (qualifies cfg) (map_values interferenceResults)))
      in (patterns,
          st\<lparr>emergentBehaviors := setAll (map (\<lambda>b. (b_id b, b)) patterns) (emergentBehaviors st)\<rparr>))"

definition calculateSystemCoherence :: "(string \<times> InterferencePattern) list \<Rightarrow> real" where
  "calculateSystemCoherence interferenceResults =
     (if length interferenceResults = 0 then 0.5
      else
        let coherenceValues = map p_coherenceLevel (map_values interferenceResults);
            averageCoherence = sum_list coherenceValues / real (length coherenceValues);
            complexityBoost = min 0.2 (real (length interferenceResults) * 0.05)
        in min 1.0 (averageCoherence + complexityBoost))"

record InterferenceResult =
  interferenceResults :: "(string \<times> InterferencePattern) list"
  emergentPatterns :: "EmergentBehavior list"
  systemCoherence :: real

definition processWaveInterference ::
  "HolographicConfig \<Rightarrow> Env \<Rightarrow> HolographicWave list \<Rightarrow> InterferenceState \<Rightarrow>
     InterferenceResult \<times> InterferenceState" where
  "processWaveInterference cfg env waves st =
     (let retained = retainedPairs cfg env waves;
          results = setAll retained [];
          st1 = st\<lparr>activePatterns := setAll retained (activePatterns st)\<rparr>;
          (emergent, st2) = detectEmergentPatterns cfg env results st1
      in (\<lparr> interferenceResults = results, emergentPatterns = emergent,
             systemCoherence = calculateSystemCoherence results \<rparr>, st2))"

definition getActivePatterns :: "InterferenceState \<Rightarrow> InterferencePattern list" where
  "getActivePatterns st = map_values (activePatterns st)"

definition getEmergentBehaviors :: "InterferenceState \<Rightarrow> EmergentBehavior list" where
  "getEmergentBehaviors st = map_values (emergentBehaviors st)"


subsection \<open>InterferenceEngine: the system coherence in IEEE doubles\<close>

text \<open>The definitions above compute with the reals. For the part of
  \<^verbatim>\<open>processWaveInterference\<close> that yields \<^verbatim>\<open>systemCoherence\<close>, the following definitions
  write out the rounding of the doubles of the source: \<open>round64\<close> is the rounding of IEEE 754
  binary64 to the nearest value, ties to even, for results in the normal range (no overflow,
  no subnormal numbers). Every arithmetic operation and every decimal literal is rounded;
  \<^verbatim>\<open>Math.cos\<close> and \<^verbatim>\<open>Math.exp\<close>, whose precision ECMAScript leaves to the implementation,
  are taken as correctly rounded.\<close>

definition roundEven :: "real \<Rightarrow> int" where
  "roundEven y =
     (let f = \<lfloor>y\<rfloor>; r = y - of_int f
      in if r < 1/2 then f else if 1/2 < r then f + 1 else if even f then f else f + 1)"

definition round64 :: "real \<Rightarrow> real" where
  "round64 x =
     (if x = 0 then 0
      else let e = \<lfloor>log 2 \<bar>x\<bar>\<rfloor>; u = 2 powr (of_int e - 52)
           in of_int (roundEven (x / u)) * u)"

definition frequencyCoherence64 :: "real \<Rightarrow> real \<Rightarrow> real option" where
  "frequencyCoherence64 f1 f2 =
     (if f2 = 0 then (if f1 = 0 then None else Some 0)
      else let frequencyRatio = round64 (f1 / f2)
           in Some (round64 (exp (- \<bar>round64 (frequencyRatio - 1)\<bar>))))"

text \<open>The \<^verbatim>\<open>coherenceLevel\<close> of \<^verbatim>\<open>calculateInterference\<close>.\<close>

definition coherenceLevel64 :: "HolographicWave \<Rightarrow> HolographicWave \<Rightarrow> real option" where
  "coherenceLevel64 wave1 wave2 =
     (let phaseDifference = \<bar>round64 (w_phase wave1 - w_phase wave2)\<bar>;
          phaseCoherence = round64 (cos phaseDifference)
      in case frequencyCoherence64 (w_frequency wave1) (w_frequency wave2) of
           None \<Rightarrow> None
         | Some freqCoherence \<Rightarrow> Some (round64 (round64 (phaseCoherence + freqCoherence) / 2)))"

text \<open>The keys and coherence levels of the patterns that the nested loops retain; the
  threshold of the configuration is the double of its decimal.\<close>

definition retainedLevels64 :: "HolographicConfig \<Rightarrow> HolographicWave list \<Rightarrow> (string \<times> real) list" where
  "retainedLevels64 cfg waves =
     List.map_filter
       (\<lambda>(wave1, wave2).
          case coherenceLevel64 wave1 wave2 of
            None \<Rightarrow> None
          | Some coherenceLevel \<Rightarrow>
              if coherenceLevel > round64 (constructiveThreshold cfg)
              then Some (patternId wave1 wave2, coherenceLevel) else None)
       (pairs waves)"

text \<open>\<^verbatim>\<open>calculateSystemCoherence\<close>, on the coherence levels of the result map; the
  \<^verbatim>\<open>reduce\<close> adds from the left, starting at 0.\<close>

definition calculateSystemCoherence64 :: "(string \<times> real) list \<Rightarrow> real" where
  "calculateSystemCoherence64 levels =
     (if length levels = 0 then round64 0.5
      else
        let coherenceValues = map_values levels;
            averageCoherence =
              round64 (foldl (\<lambda>sum val. round64 (sum + val)) 0 coherenceValues
                       / real (length coherenceValues));
            complexityBoost = min (round64 0.2) (round64 (real (length levels) * round64 0.05))
        in min (round64 1.0) (round64 (averageCoherence + complexityBoost)))"

text \<open>The number of patterns in the result map of \<^verbatim>\<open>processWaveInterference\<close> and its
  \<^verbatim>\<open>systemCoherence\<close>.\<close>

definition systemCoherence64 :: "HolographicConfig \<Rightarrow> HolographicWave list \<Rightarrow> nat \<times> real" where
  "systemCoherence64 cfg waves =
     (let results = setAll (retainedLevels64 cfg waves) []
      in (length results, calculateSystemCoherence64 results))"

subsection \<open>HolographicWaveEngine\<close>

record EngineState =
  holographicMemory :: MemoryState
  interferenceEngine :: InterferenceState
  activeWaves :: "(string \<times> HolographicWave) list"

fun extractTextContent :: "WaveContent \<Rightarrow> string" where
  "extractTextContent (TextContent x) = x"
| "extractTextContent (ObjectContent text content message json) = json"
| "extractTextContent (PrimitiveContent x) = x"

text \<open>The private \<^verbatim>\<open>calculatePhase\<close> of the wave engine: the same hash, over the
  extracted text of the content.\<close>

definition calculateWavePhase :: "WaveContent \<Rightarrow> string \<Rightarrow> real" where
  "calculateWavePhase content sourceRegion =
     phaseOfHash (hashLoop 0 (charCodes (extractTextContent content @ sourceRegion)))"

text \<open>Storing the insight of every emergent behaviour as a \<^verbatim>\<open>MEMORY\<close> fragment of the region
  \<^verbatim>\<open>InterferenceEngine\<close>; the \<open>k\<close>-th one draws fragment and session identifier \<open>k + 1\<close>
  (identifier 0 went to the fragment of the wave).\<close>

definition storeEmergent ::
  "HolographicConfig \<Rightarrow> Env \<Rightarrow> EmergentBehavior list \<Rightarrow> MemoryState \<Rightarrow> MemoryState" where
  "storeEmergent cfg env behaviors mem =
     fold (\<lambda>(k, pattern) m.
             snd (storeFragment cfg (e_now env) (e_fragmentIds env (Suc k)) (b_insight pattern)
                    ''InterferenceEngine'' MEMORY (b_confidence pattern) (e_sessionIds env (Suc k)) m))
       (enumerate 0 behaviors) mem"

definition propagateHolographicWave ::
  "HolographicConfig \<Rightarrow> Env \<Rightarrow> string \<Rightarrow> WaveContent \<Rightarrow> WaveType \<Rightarrow> real \<Rightarrow> string list \<Rightarrow>
     EngineState \<Rightarrow> string \<times> EngineState" where
  "propagateHolographicWave cfg env sourceRegion content waveType amplitude targetRegions st =
     (let wave0 =
            \<lparr> w_id = e_waveId env, w_sourceRegion = sourceRegion,
              w_targetRegions = (if length targetRegions > 0 then targetRegions else [''all'']),
              w_waveType = waveType, w_frequency = WaveFrequencies waveType,
              w_phase = calculateWavePhase content sourceRegion, w_amplitude = amplitude,
              w_content = content, w_memoryFragmentIds = [], w_timestamp = e_now env \<rparr>;
          (fragmentId, mem1) =
            storeFragment cfg (e_now env) (e_fragmentIds env 0) (extractTextContent content)
              sourceRegion waveType amplitude (e_sessionIds env 0) (holographicMemory st);
          wave = wave0\<lparr>w_memoryFragmentIds := w_memoryFragmentIds wave0 @ [fragmentId]\<rparr>;
          waves1 = map_set (w_id wave) wave (activeWaves st);
          (interferenceResult, ie1) =
            processWaveInterference cfg env (map_values waves1) (interferenceEngine st);
          mem2 = storeEmergent cfg env (emergentPatterns interferenceResult) mem1
      in (w_id wave,
          \<lparr> holographicMemory = mem2, interferenceEngine = ie1, activeWaves = waves1 \<rparr>))"

definition enhanceWithHolographicReconstruction ::
  "int \<Rightarrow> TargetContext \<Rightarrow> real \<Rightarrow> EngineState \<Rightarrow> (error + string option) \<times> EngineState" where
  "enhanceWithHolographicReconstruction now targetContext requiredCoherence st =
     (let (r, mem) = reconstructInformation now targetContext requiredCoherence (holographicMemory st)
      in (r, st\<lparr>holographicMemory := mem\<rparr>))"

record SystemState =
  s_activeWaves :: nat
  s_fragmentCount :: nat
  s_systemCoherence :: real
  s_emergentBehaviors :: nat
  s_interferencePatterns :: nat

definition getSystemState :: "HolographicConfig \<Rightarrow> Env \<Rightarrow> EngineState \<Rightarrow> SystemState \<times> EngineState" where
  "getSystemState cfg env st =
     (let (interferenceResult, ie1) =
            processWaveInterference cfg env (map_values (activeWaves st)) (interferenceEngine st)
      in (\<lparr> s_activeWaves = length (activeWaves st),
             s_fragmentCount = getFragmentCount (holographicMemory st),
             s_systemCoherence = systemCoherence interferenceResult,
             s_emergentBehaviors = length (emergentPatterns interferenceResult),
             s_interferencePatterns = length (interferenceResults interferenceResult) \<rparr>,
          st\<lparr>interferenceEngine := ie1\<rparr>))"

record DegradationResult =
  r_success :: bool
  r_method :: string
  r_confidence :: real
  r_reconstructed :: "string option"

text \<open>\<^verbatim>\<open>gracefulDegradation\<close>: the \<^verbatim>\<open>catch\<close> turns a rejection into the third result;
  \<^verbatim>\<open>if (reconstructed)\<close> is the truthiness of the string.\<close>

definition gracefulDegradation ::
  "HolographicConfig \<Rightarrow> int \<Rightarrow> TargetContext \<Rightarrow> EngineState \<Rightarrow> DegradationResult \<times> EngineState" where
  "gracefulDegradation cfg now fallbackContext st =
     (case reconstructInformation now fallbackContext (minimumCoherence cfg) (holographicMemory st) of
        (Inl err, mem) \<Rightarrow>
          (\<lparr> r_success = False, r_method = ''failed'', r_confidence = 0.0, r_reconstructed = None \<rparr>,
           st\<lparr>holographicMemory := mem\<rparr>)
      | (Inr reconstructed, mem) \<Rightarrow>
          if truthy reconstructed
          then (\<lparr> r_success = True, r_method = ''holographic_reconstruction'', r_confidence = 0.6,
                  r_reconstructed = reconstructed \<rparr>, st\<lparr>holographicMemory := mem\<rparr>)
          else (\<lparr> r_success = True, r_method = ''emergency_fallback'', r_confidence = 0.3,
                  r_reconstructed = None \<rparr>, st\<lparr>holographicMemory := mem\<rparr>))"




definition engineFlushAllMemory :: "HolographicConfig \<Rightarrow> EngineState \<Rightarrow> EngineState" where
  "engineFlushAllMemory cfg st =
     st\<lparr>holographicMemory := flushAllMemory cfg (holographicMemory st), activeWaves := []\<rparr>"

definition cleanup :: "EngineState \<Rightarrow> EngineState" where
  "cleanup st = st\<lparr>activeWaves := [], holographicMemory := clearCache (holographicMemory st)\<rparr>"

definition newEngine ::
  "HolographicConfig \<Rightarrow> int \<Rightarrow> (string \<times> PersistedEntry) list option \<Rightarrow> EngineState" where
  "newEngine cfg now stored =
     \<lparr> holographicMemory = newMemorySystem cfg now stored,
       interferenceEngine = \<lparr> activePatterns = [], emergentBehaviors = [] \<rparr>,
       activeWaves = [] \<rparr>"

subsection \<open>Readings of the specification, for comparison\<close>

text \<open>The coherence signature as the specification words it: the five longest of the distinct
  significant words, in alphabetical order, joined.\<close>

definition fiveLongestSignature :: "string \<Rightarrow> string" where
  "fiveLongestSignature content =
     (let significant =
            remdups (filter (\<lambda>w. length w > 3) (split_on CHR '' '' (toLowerCase content)));
          longest = take 5 (sort_key (\<lambda>w. - int (length w)) significant)
      in join ''|'' (sort longest))"

text \<open>Lower-casing stated by code unit instead of by table: the code units of the upper-case
  letters (65..90, and 192..222 without 215) move up by 32, all others stay.\<close>

definition isUpperUnit :: "nat \<Rightarrow> bool" where
  "isUpperUnit n = (65 \<le> n \<and> n \<le> 90 \<or> 192 \<le> n \<and> n \<le> 222 \<and> n \<noteq> 215)"

definition lowerUnit :: "char \<Rightarrow> char" where
  "lowerUnit c = (if isUpperUnit (of_char c) then char_of (of_char c + 32 :: nat) else c)"

subsection \<open>Concrete configuration and inputs\<close>

text \<open>\<^verbatim>\<open>defaultHolographicConfig\<close> of \<^verbatim>\<open>stores/holographicStore.ts\<close>.\<close>

definition defaultHolographicConfig :: HolographicConfig where
  "defaultHolographicConfig =
     \<lparr> constructiveThreshold = 0.6, destructiveThreshold = 0.3, emergentThreshold = 0.8,
       coherenceDecayRate = 0.1, maxFragmentsPerRegion = 100, reconstructionThreshold = 0.6,
       fragmentPersistence = 0.8, crossSessionEnabled = True, degradationEnabled = True,
       reconstructionAttempts = 3, minimumCoherence = 0.4,
       fallbackRegions = [''InnerBrain'', ''FrontalLobe''] \<rparr>"

text \<open>An environment whose clock reads \<open>t\<close> and whose \<open>k\<close>-th identifier of each kind is
  the tag followed by \<open>k\<close> marks.\<close>

definition envAt :: "int \<Rightarrow> string \<Rightarrow> Env" where
  "envAt t tag =
     \<lparr> e_now = t, e_waveId = ''wave_'' @ tag,
       e_fragmentIds = (\<lambda>k. ''frag_'' @ tag @ replicate k CHR ''x''),
       e_sessionIds = (\<lambda>k. ''session_'' @ tag @ replicate k CHR ''x''),
       e_patternIds = (\<lambda>k. ''interference_'' @ tag @ replicate k CHR ''x''),
       e_behaviorIds = (\<lambda>k. ''emergent_'' @ tag @ replicate k CHR ''x'') \<rparr>"

definition emptyMemory :: MemoryState where
  "emptyMemory = \<lparr> fragments = [], coherenceMap = [], reconstructionCache = [], localStorage = None \<rparr>"

definition emptyEngine :: EngineState where
  "emptyEngine =
     \<lparr> holographicMemory = emptyMemory,
       interferenceEngine = \<lparr> activePatterns = [], emergentBehaviors = [] \<rparr>,
       activeWaves = [] \<rparr>"

text \<open>A fragment agrees with the static tables when its frequency is the table value of its
  wave type and its phase is the hash of its own content and region.\<close>

definition tableConsistent :: "HolographicFragment \<Rightarrow> bool" where
  "tableConsistent f =
     (f_frequency f = WaveFrequencies (f_waveType f)
      \<and> f_phase f = calculatePhase (f_content f) (f_sourceRegion f))"

text \<open>The engine after one propagation of amplitude 1, and after one of amplitude 0 (the
  \<^verbatim>\<open>amplitude\<close> parameter of the method is any number).\<close>

definition unitEngine :: EngineState where
  "unitEngine =
     snd (propagateHolographicWave defaultHolographicConfig (envAt 1000 ''a'') ''UserInput''
            (TextContent ''true story'') INTENT 1 [] emptyEngine)"



text \<open>Operations on the memory system that are neither \<^verbatim>\<open>clearCache\<close> nor
  \<^verbatim>\<open>flushAllMemory\<close>, with the clock reading and the identifier each one draws.\<close>

datatype MemOp =
    Store int string string string WaveType real string
  | Reconstruct int TargetContext real

fun applyOp :: "HolographicConfig \<Rightarrow> MemOp \<Rightarrow> MemoryState \<Rightarrow> MemoryState" where
  "applyOp cfg (Store now fid content sourceRegion waveType importance sessionId) s =
     snd (storeFragment cfg now fid content sourceRegion waveType importance sessionId s)"
| "applyOp cfg (Reconstruct now targetContext requiredCoherence) s =
     snd (reconstructInformation now targetContext requiredCoherence s)"

definition emergencyFallback :: DegradationResult where
  "emergencyFallback =
     \<lparr> r_success = True, r_method = ''emergency_fallback'', r_confidence = 0.3,
       r_reconstructed = None \<rparr>"

definition failedResult :: DegradationResult where
  "failedResult =
     \<lparr> r_success = False, r_method = ''failed'', r_confidence = 0.0, r_reconstructed = None \<rparr>"

definition holographicResult :: "string \<Rightarrow> DegradationResult" where
  "holographicResult text =
     \<lparr> r_success = True, r_method = ''holographic_reconstruction'', r_confidence = 0.6,
       r_reconstructed = Some text \<rparr>"








text \<open>A wave with the given identifier, phase, frequency and text, and an interference engine
  with empty caches; the default configuration with the constructive threshold moved to 0.3
  and, for another check, with the two thresholds exchanged (both are settings that the
  parameter panel offers: its sliders run from 0.1 to 1.0 in steps of 0.05).\<close>

definition plainWave :: "string \<Rightarrow> real \<Rightarrow> real \<Rightarrow> string \<Rightarrow> HolographicWave" where
  "plainWave wid phase frequency content =
     \<lparr> w_id = wid, w_sourceRegion = ''UserInput'', w_targetRegions = [''all''],
       w_waveType = INTENT, w_frequency = frequency, w_phase = phase, w_amplitude = 1,
       w_content = TextContent content, w_memoryFragmentIds = [], w_timestamp = 0 \<rparr>"

definition emptyInterference :: InterferenceState where
  "emptyInterference = \<lparr> activePatterns = [], emergentBehaviors = [] \<rparr>"

definition lowThresholdConfig :: HolographicConfig where
  "lowThresholdConfig = defaultHolographicConfig\<lparr>constructiveThreshold := 0.3\<rparr>"

definition swappedThresholdConfig :: HolographicConfig where
  "swappedThresholdConfig =
     defaultHolographicConfig\<lparr>constructiveThreshold := 0.8, emergentThreshold := 0.6\<rparr>"

text \<open>The retained patterns of a call that pass the test of \<^verbatim>\<open>detectEmergentPatterns\<close>, and
  the coherence level and emergent content of one pair of waves (they do not depend on the
  clock or on the identifier drawn).\<close>

definition qualifyingPairs ::
  "HolographicConfig \<Rightarrow> Env \<Rightarrow> HolographicWave list \<Rightarrow> InterferencePattern list" where
  "qualifyingPairs cfg env waves =
     filter (qualifies cfg) (map_values (retainedPairs cfg env waves))"

definition pairCoherence :: "HolographicWave \<Rightarrow> HolographicWave \<Rightarrow> real option" where
  "pairCoherence wave1 wave2 = map_option p_coherenceLevel (calculateInterference 0 [] wave1 wave2)"

definition pairContent :: "HolographicWave \<Rightarrow> HolographicWave \<Rightarrow> string option" where
  "pairContent wave1 wave2 =
     (case calculateInterference 0 [] wave1 wave2 of
        None \<Rightarrow> None | Some interference \<Rightarrow> p_emergentContent interference)"

text \<open>The engine after two propagations of the same text from the same region, as a
  \<^verbatim>\<open>CONFIDENCE\<close> and as an \<^verbatim>\<open>INTENT\<close> wave, under the configuration with the thresholds
  exchanged; and an engine that holds two waves of equal phase and frequency.\<close>

definition rustWave :: "string \<Rightarrow> string \<Rightarrow> WaveType \<Rightarrow> int \<Rightarrow> HolographicWave" where
  "rustWave wid fid waveType t =
     \<lparr> w_id = wid, w_sourceRegion = ''UserInput'', w_targetRegions = [''all''],
       w_waveType = waveType, w_frequency = WaveFrequencies waveType,
       w_phase = calculateWavePhase (TextContent ''rust language'') ''UserInput'',
       w_amplitude = 1, w_content = TextContent ''rust language'',
       w_memoryFragmentIds = [fid], w_timestamp = t \<rparr>"

definition rustEngine :: EngineState where
  "rustEngine =
     snd (propagateHolographicWave swappedThresholdConfig (envAt 2000 ''b'') ''UserInput''
            (TextContent ''rust language'') INTENT 1 []
            (snd (propagateHolographicWave swappedThresholdConfig (envAt 1000 ''a'') ''UserInput''
                    (TextContent ''rust language'') CONFIDENCE 1 [] emptyEngine)))"

definition twoWaveEngine :: EngineState where
  "twoWaveEngine =
     emptyEngine\<lparr>activeWaves :=
       [(''w1'', plainWave ''w1'' 0 1 ''Rust and Go are great''),
        (''w2'', plainWave ''w2'' 0 1 ''Rust is excellent for systems work'')]\<rparr>"

text \<open>The default configuration with a cap of two fragments per region, and a memory with three
  fragments: two \<^verbatim>\<open>MEMORY\<close> fragments of the same text and region, and one \<^verbatim>\<open>CONFIDENCE\<close>
  fragment.\<close>

definition capTwoConfig :: HolographicConfig where
  "capTwoConfig = defaultHolographicConfig\<lparr>maxFragmentsPerRegion := 2\<rparr>"

definition agingMemory :: MemoryState where
  "agingMemory =
     snd (storeFragment defaultHolographicConfig 2 ''frag_c'' ''tru'' ''FrontalLobe'' CONFIDENCE 1
            ''session_c''
       (snd (storeFragment defaultHolographicConfig 1 ''frag_b'' ''true true true'' ''InnerBrain''
               MEMORY 1 ''session_b''
          (snd (storeFragment defaultHolographicConfig 0 ''frag_a'' ''true true true''
                  ''InnerBrain'' MEMORY 1 ''session_a'' emptyMemory)))))"

text \<open>A content string with an upper-case letter outside ASCII (\<^verbatim>\<open>0xC9\<close>, E with acute)
  and two words of three letters.\<close>

definition ecoleContent :: string where
  "ecoleContent = [CHR 0xC9] @ ''COLE Zebra and THE Apple''"

text \<open>The double \<^verbatim>\<open>0.5544066895425928\<close>, and two waves with the table frequencies of
  \<^verbatim>\<open>CONFIDENCE\<close> (2.0) and \<^verbatim>\<open>CONTEXT\<close> (0.5) whose phases differ by it.\<close>

definition phase64 :: real where
  "phase64 = 4993651520871462 / 2 ^ 53"

definition halfWaves :: "HolographicWave list" where
  "halfWaves = [plainWave ''w1'' phase64 2 ''first'', plainWave ''w2'' 0 (1 / 2) ''second'']"

section \<open>Properties\<close>

subsection \<open>Maps and the fragment store\<close>

lemma set_map_set: "set (map_set k v m) \<subseteq> insert (k, v) (set m)"
  by (induction m) (auto split: if_splits)

lemma map_of_map_set: "map_of (map_set k v m) k = Some v"
  by (induction m) auto

lemma set_map_delete: "set (map_delete k m) \<subseteq> set m"
  by (auto simp: map_delete_def)

lemma fragments_delete_fold:
  "set (fragments (fold (\<lambda>fragment st.
          st\<lparr>fragments := map_delete (f_id fragment) (fragments st),
             coherenceMap := map_delete (f_id fragment) (coherenceMap st)\<rparr>) xs s))
   \<subseteq> set (fragments s)"
proof (induction xs arbitrary: s)
  case Nil
  show ?case by simp
next
  case (Cons x xs)
  show ?case
    using Cons.IH[of "s\<lparr>fragments := map_delete (f_id x) (fragments s),
             coherenceMap := map_delete (f_id x) (coherenceMap s)\<rparr>"]
      set_map_delete[of "f_id x" "fragments s"]
    by auto
qed

lemma fragments_cleanup: "set (fragments (cleanupOldFragments cfg r s)) \<subseteq> set (fragments s)"
  by (simp add: cleanupOldFragments_def Let_def fragments_delete_fold)

lemma fragments_persist: "fragments (persistFragment now f s) = fragments s"
  by (simp add: persistFragment_def Let_def)

lemma f_id_newFragment [simp]: "f_id (newFragment now fid content r wt imp sess) = fid"
  by (simp add: newFragment_def)

lemma fragments_updateCoherenceMap [simp]: "fragments (updateCoherenceMap f s) = fragments s"
  by (simp add: updateCoherenceMap_def)

lemma fragments_store:
  "set (fragments (snd (storeFragment cfg now fid content r wt imp sess s)))
   \<subseteq> insert (fid, newFragment now fid content r wt imp sess) (set (fragments s))"
proof -
  let ?F = "newFragment now fid content r wt imp sess"
  let ?s2 = "updateCoherenceMap ?F (s\<lparr>fragments := map_set fid ?F (fragments s)\<rparr>)"
  let ?s3 = "if crossSessionEnabled cfg then persistFragment now ?F ?s2 else ?s2"
  have eq: "snd (storeFragment cfg now fid content r wt imp sess s) = cleanupOldFragments cfg r ?s3"
    by (simp add: storeFragment_def Let_def)
  have "fragments ?s3 = map_set fid ?F (fragments s)"
    by (simp add: fragments_persist)
  with fragments_cleanup[of cfg r ?s3] have "set (fragments (cleanupOldFragments cfg r ?s3))
      \<subseteq> set (map_set fid ?F (fragments s))" by simp
  with set_map_set[of fid ?F "fragments s"] show ?thesis unfolding eq by blast
qed

lemma fst_storeFragment [simp]: "fst (storeFragment cfg now fid content r wt imp sess s) = fid"
  by (simp add: storeFragment_def Let_def)

subsection \<open>Phase and frequency\<close>

lemma pi_lower: "3.135 < pi"
proof -
  obtain t where s: "sin (0.5225::real) =
      (\<Sum>m<5. sin_coeff m * 0.5225 ^ m) + sin (t + 1/2 * real (5::nat) * pi) / fact 5 * 0.5225 ^ 5"
    using Maclaurin_sin_expansion3[of 5 "0.5225"] by auto
  define R where "R = sin (t + 1/2 * real (5::nat) * pi) / fact 5 * (0.5225::real) ^ 5"
  have "sin (t + 1/2 * real (5::nat) * pi) \<le> 1" by simp
  then have "R \<le> 1 / fact 5 * (0.5225::real) ^ 5"
    unfolding R_def by (intro mult_right_mono divide_right_mono) simp_all
  then have rest: "R \<le> 1 / 120 * (0.5225::real) ^ 5"
    by (simp add: fact_numeral)
  have c: "sin_coeff 0 = 0" "sin_coeff (Suc 0) = 1" "sin_coeff 2 = 0" "sin_coeff 3 = - 1 / 6"
    "sin_coeff 4 = 0"
    by (simp_all add: sin_coeff_def fact_numeral)
  have "{..<5::nat} = {0, 1, 2, 3, 4}" by auto
  then have poly: "(\<Sum>m<5. sin_coeff m * (0.5225::real) ^ m) = 0.5225 - 0.5225 ^ 3 / 6"
    by (simp add: c)
  have num: "(0.5225::real) - 0.5225 ^ 3 / 6 + 1 / 120 * 0.5225 ^ 5 < 1 / 2"
    by (simp add: power_divide)
  have "sin (0.5225::real) = 0.5225 - 0.5225 ^ 3 / 6 + R"
    using s unfolding poly R_def .
  with rest num have "sin (0.5225::real) < 1 / 2" by linarith
  then have "sin (0.5225::real) < sin (pi / 6)" by (simp add: sin_30)
  moreover have "pi / 6 \<le> pi / 2" by simp
  moreover have "(0.5225::real) \<le> pi / 2" using pi_ge_two by simp
  ultimately have "(0.5225::real) < pi / 6"
    using sin_mono_less_eq[of "0.5225" "pi / 6"] pi_ge_two by auto
  then show ?thesis by simp
qed

lemma phaseOfHash_range: "0 \<le> phaseOfHash h \<and> phaseOfHash h < 2 * pi"
proof -
  have "nat \<bar>sint h\<bar> mod 628 < 628" by simp
  then have "real (nat \<bar>sint h\<bar> mod 628) \<le> 627" by linarith
  then have "phaseOfHash h \<le> 6.27" by (simp add: phaseOfHash_def)
  moreover have "0 \<le> phaseOfHash h" by (simp add: phaseOfHash_def)
  ultimately show ?thesis using pi_lower by simp
qed

subsection \<open>Coherence signature\<close>

text \<open>
  Claim C8, as stated: the coherence signature is made of the five longest significant
  words. It fails: for six significant words of lengths 4 to 9 the source keeps the first
  five in order of occurrence and so leaves out the longest one.
\<close>

theorem coherenceSignature_not_five_longest:
  "generateCoherenceSignature ''aaaa bbbbb cccccc ddddddd eeeeeeee fffffffff''
     = ''aaaa|bbbbb|cccccc|ddddddd|eeeeeeee''
   \<and> fiveLongestSignature ''aaaa bbbbb cccccc ddddddd eeeeeeee fffffffff''
     = ''bbbbb|cccccc|ddddddd|eeeeeeee|fffffffff''"
  by (simp add: generateCoherenceSignature_def fiveLongestSignature_def toLowerCase_def
      toLowerChar_def)

lemma toLowerChar_code:
  "(of_char (toLowerChar c) :: nat) = (if isUpperUnit (of_char c) then of_char c + 32 else of_char c)"
  by (cases c) (simp add: toLowerChar_def isUpperUnit_def)

lemma toLowerChar_lowerUnit: "toLowerChar c = lowerUnit c"
proof -
  have "toLowerChar c = char_of (of_char (toLowerChar c) :: nat)" by simp
  also have "\<dots> = lowerUnit c"
    unfolding toLowerChar_code by (simp add: lowerUnit_def)
  finally show ?thesis .
qed

lemma toLowerCase_lowerUnit: "toLowerCase s = map lowerUnit s"
  by (simp add: toLowerCase_def toLowerChar_lowerUnit)

lemma signature_words:
  "\<exists>ws. generateCoherenceSignature content = join ''|'' ws \<and> sorted ws \<and> length ws \<le> 5 \<and>
        mset ws = mset (take 5 (filter (\<lambda>w. length w > 3)
                                   (split_on CHR '' '' (map lowerUnit content))))"
  by (rule exI[of _ "sort (take 5 (filter (\<lambda>w. length w > 3)
                                       (split_on CHR '' '' (map lowerUnit content))))"])
     (simp add: generateCoherenceSignature_def toLowerCase_lowerUnit)

text \<open>
  Claim C8, amended: the coherence signature of the fragment that \<^verbatim>\<open>storeFragment\<close> adds to
  the store is the join with \<^verbatim>\<open>|\<close> of a list of at most five words in ascending
  code-unit order, which are exactly (with multiplicity) the first five words of length above
  3 of the lower-cased content split at single spaces; lower-casing moves the code units of
  the upper-case letters up by 32 and leaves the others.
\<close>

theorem storeFragment_coherenceSignature:
  "\<forall>kf \<in> set (fragments (snd (storeFragment cfg now fid content sourceRegion waveType importance
                                  sessionId s))).
     kf \<notin> set (fragments s) \<longrightarrow>
       fst kf = fid \<and> f_content (snd kf) = content
       \<and> (\<exists>ws. f_coherenceSignature (snd kf) = join ''|'' ws \<and> sorted ws \<and> length ws \<le> 5
               \<and> mset ws = mset (take 5 (filter (\<lambda>w. length w > 3)
                                          (split_on CHR '' '' (map lowerUnit content)))))"
proof (intro ballI impI)
  fix kf
  assume a: "kf \<in> set (fragments (snd (storeFragment cfg now fid content sourceRegion waveType
      importance sessionId s)))" and b: "kf \<notin> set (fragments s)"
  from a b fragments_store[of cfg now fid content sourceRegion waveType importance sessionId s]
  have kf: "kf = (fid, newFragment now fid content sourceRegion waveType importance sessionId)"
    by auto
  have sig: "f_coherenceSignature (snd kf) = generateCoherenceSignature content"
    and c: "f_content (snd kf) = content"
    unfolding kf by (simp_all add: newFragment_def)
  have f: "fst kf = fid" unfolding kf by simp
  from signature_words[of content]
  have "\<exists>ws. f_coherenceSignature (snd kf) = join ''|'' ws \<and> sorted ws \<and> length ws \<le> 5
               \<and> mset ws = mset (take 5 (filter (\<lambda>w. length w > 3)
                                          (split_on CHR '' '' (map lowerUnit content))))"
    by (simp only: sig)
  with f c show "fst kf = fid \<and> f_content (snd kf) = content
       \<and> (\<exists>ws. f_coherenceSignature (snd kf) = join ''|'' ws \<and> sorted ws \<and> length ws \<le> 5
               \<and> mset ws = mset (take 5 (filter (\<lambda>w. length w > 3)
                                          (split_on CHR '' '' (map lowerUnit content)))))"
    by (intro conjI)
qed

lemma ecole_store:
  "fragments (snd (storeFragment defaultHolographicConfig 1000 ''frag_a'' ecoleContent
                     ''UserInput'' INTENT 1 ''session_a'' emptyMemory))
     = [(''frag_a'', newFragment 1000 ''frag_a'' ecoleContent ''UserInput'' INTENT 1 ''session_a'')]"
  by (simp add: storeFragment_def Let_def updateCoherenceMap_def persistFragment_def
      cleanupOldFragments_def defaultHolographicConfig_def emptyMemory_def
      map_values_def getPersistedFragments_def fragments_persist)

lemma ecole_signature:
  "generateCoherenceSignature ecoleContent = ''apple|zebra|'' @ [CHR 0xE9] @ ''cole''"
  by (simp add: generateCoherenceSignature_def ecoleContent_def toLowerCase_def toLowerChar_def)

lemma ecole_words:
  "take 5 (filter (\<lambda>w. length w > 3) (split_on CHR '' '' (map lowerUnit ecoleContent)))
     = [[CHR 0xE9] @ ''cole'', ''zebra'', ''apple'']"
  unfolding toLowerCase_lowerUnit[symmetric]
  by (simp add: ecoleContent_def toLowerCase_def toLowerChar_def)

theorem storeFragment_coherenceSignature_witness:
  "\<exists>kf \<in> set (fragments (snd (storeFragment defaultHolographicConfig 1000 ''frag_a'' ecoleContent
                                  ''UserInput'' INTENT 1 ''session_a'' emptyMemory))).
     kf \<notin> set (fragments emptyMemory)
     \<and> fst kf = ''frag_a''
     \<and> f_coherenceSignature (snd kf) = ''apple|zebra|'' @ [CHR 0xE9] @ ''cole''
     \<and> (\<exists>ws. f_coherenceSignature (snd kf) = join ''|'' ws \<and> sorted ws
             \<and> mset ws = mset [[CHR 0xE9] @ ''cole'', ''zebra'', ''apple''])"
proof -
  let ?F = "newFragment 1000 ''frag_a'' ecoleContent ''UserInput'' INTENT 1 ''session_a''"
  let ?S = "snd (storeFragment defaultHolographicConfig 1000 ''frag_a'' ecoleContent
                   ''UserInput'' INTENT 1 ''session_a'' emptyMemory)"
  have mem: "(''frag_a'', ?F) \<in> set (fragments ?S)" unfolding ecole_store by simp
  have new: "(''frag_a'', ?F) \<notin> set (fragments emptyMemory)" by (simp add: emptyMemory_def)
  have sig: "f_coherenceSignature (snd (''frag_a'', ?F)) = ''apple|zebra|'' @ [CHR 0xE9] @ ''cole''"
    using ecole_signature by (simp add: newFragment_def)
  from storeFragment_coherenceSignature[where cfg = defaultHolographicConfig and now = 1000
      and fid = "''frag_a''" and content = ecoleContent and sourceRegion = "''UserInput''"
      and waveType = INTENT and importance = 1 and sessionId = "''session_a''" and s = emptyMemory,
      THEN bspec, OF mem, THEN mp, OF new]
  have "\<exists>ws. f_coherenceSignature (snd (''frag_a'', ?F)) = join ''|'' ws \<and> sorted ws
             \<and> mset ws = mset [[CHR 0xE9] @ ''cole'', ''zebra'', ''apple'']"
    unfolding ecole_words by blast
  with mem new sig show ?thesis by (intro bexI[of _ "(''frag_a'', ?F)"] conjI) simp_all
qed

lemma calculatePhase_range: "0 \<le> calculatePhase c r \<and> calculatePhase c r < 2 * pi"
  by (simp add: calculatePhase_def phaseOfHash_range)

lemma calculateWavePhase_eq:
  "calculateWavePhase content r = calculatePhase (extractTextContent content) r"
  by (simp add: calculateWavePhase_def calculatePhase_def)

lemma newFragment_consistent: "tableConsistent (newFragment now fid content r wt imp sess)"
  by (simp add: tableConsistent_def newFragment_def)

lemma storeEmergent_new:
  "\<forall>kv \<in> set (fragments (storeEmergent cfg env xs mem)).
     kv \<in> set (fragments mem) \<or>
     (tableConsistent (snd kv) \<and> f_waveType (snd kv) = MEMORY
        \<and> f_sourceRegion (snd kv) = ''InterferenceEngine'')"
proof -
  have "\<forall>kv \<in> set (fragments (fold (\<lambda>(k, pattern) m.
             snd (storeFragment cfg (e_now env) (e_fragmentIds env (Suc k)) (b_insight pattern)
                    ''InterferenceEngine'' MEMORY (b_confidence pattern) (e_sessionIds env (Suc k)) m))
             ys mem)).
     kv \<in> set (fragments mem) \<or>
     (tableConsistent (snd kv) \<and> f_waveType (snd kv) = MEMORY
        \<and> f_sourceRegion (snd kv) = ''InterferenceEngine'')" for ys
  proof (induction ys arbitrary: mem)
    case Nil
    show ?case by simp
  next
    case (Cons x xs)
    obtain k pattern where x: "x = (k, pattern)" by (cases x)
    let ?F = "newFragment (e_now env) (e_fragmentIds env (Suc k)) (b_insight pattern)
                    ''InterferenceEngine'' MEMORY (b_confidence pattern) (e_sessionIds env (Suc k))"
    let ?m = "snd (storeFragment cfg (e_now env) (e_fragmentIds env (Suc k)) (b_insight pattern)
                    ''InterferenceEngine'' MEMORY (b_confidence pattern) (e_sessionIds env (Suc k)) mem)"
    have F: "tableConsistent ?F \<and> f_waveType ?F = MEMORY \<and> f_sourceRegion ?F = ''InterferenceEngine''"
      by (simp add: newFragment_consistent) (simp add: newFragment_def)
    have sub: "set (fragments ?m) \<subseteq> insert (e_fragmentIds env (Suc k), ?F) (set (fragments mem))"
      by (rule fragments_store)
    show ?case
    proof
      fix kv assume "kv \<in> set (fragments (fold (\<lambda>(k, pattern) m.
             snd (storeFragment cfg (e_now env) (e_fragmentIds env (Suc k)) (b_insight pattern)
                    ''InterferenceEngine'' MEMORY (b_confidence pattern) (e_sessionIds env (Suc k)) m))
             (x # xs) mem))"
      then have "kv \<in> set (fragments (fold (\<lambda>(k, pattern) m.
             snd (storeFragment cfg (e_now env) (e_fragmentIds env (Suc k)) (b_insight pattern)
                    ''InterferenceEngine'' MEMORY (b_confidence pattern) (e_sessionIds env (Suc k)) m))
             xs ?m))" by (simp add: x)
      with Cons.IH[of ?m] have "kv \<in> set (fragments ?m) \<or>
         (tableConsistent (snd kv) \<and> f_waveType (snd kv) = MEMORY
            \<and> f_sourceRegion (snd kv) = ''InterferenceEngine'')" by blast
      with sub F show "kv \<in> set (fragments mem) \<or>
         (tableConsistent (snd kv) \<and> f_waveType (snd kv) = MEMORY
            \<and> f_sourceRegion (snd kv) = ''InterferenceEngine'')" by auto
    qed
  qed
  then show ?thesis by (simp add: storeEmergent_def)
qed

text \<open>
  Claim C5: the wave that a propagation puts into the active set has the table frequency of
  its wave type; every fragment that the propagation creates (the fragment of the wave, and
  the \<^verbatim>\<open>MEMORY\<close> fragments of the emergent insights) has the table frequency of its wave
  type; and each phase is the hash of the content and the source region alone (it depends on
  nothing else: not on the state, the clock or the configuration) and lies in \<open>[0, 2\<pi>)\<close>.
\<close>

theorem propagation_frequency_and_phase:
  "case propagateHolographicWave cfg env sourceRegion content waveType amplitude targetRegions st of
     (wid, st') \<Rightarrow>
       (\<exists>wave. map_of (activeWaves st') wid = Some wave
          \<and> w_frequency wave = WaveFrequencies waveType
          \<and> w_phase wave = calculatePhase (extractTextContent content) sourceRegion
          \<and> 0 \<le> w_phase wave \<and> w_phase wave < 2 * pi)
     \<and> (\<forall>f \<in> set (map_values (fragments (holographicMemory st'))).
          f \<notin> set (map_values (fragments (holographicMemory st))) \<longrightarrow>
            f_frequency f = WaveFrequencies (f_waveType f)
            \<and> f_phase f = calculatePhase (f_content f) (f_sourceRegion f)
            \<and> 0 \<le> f_phase f \<and> f_phase f < 2 * pi
            \<and> (f_waveType f = waveType \<and> f_sourceRegion f = sourceRegion
                  \<and> f_content f = extractTextContent content
               \<or> f_waveType f = MEMORY \<and> f_sourceRegion f = ''InterferenceEngine''))"
proof -
  let ?F = "newFragment (e_now env) (e_fragmentIds env 0) (extractTextContent content)
              sourceRegion waveType amplitude (e_sessionIds env 0)"
  let ?mem1 = "snd (storeFragment cfg (e_now env) (e_fragmentIds env 0) (extractTextContent content)
              sourceRegion waveType amplitude (e_sessionIds env 0) (holographicMemory st))"
  let ?wave = "\<lparr> w_id = e_waveId env, w_sourceRegion = sourceRegion,
              w_targetRegions = (if length targetRegions > 0 then targetRegions else [''all'']),
              w_waveType = waveType, w_frequency = WaveFrequencies waveType,
              w_phase = calculateWavePhase content sourceRegion, w_amplitude = amplitude,
              w_content = content, w_memoryFragmentIds = [e_fragmentIds env 0],
              w_timestamp = e_now env \<rparr>"
  obtain wid st' where p: "propagateHolographicWave cfg env sourceRegion content waveType amplitude
      targetRegions st = (wid, st')"
    by (cases "propagateHolographicWave cfg env sourceRegion content waveType amplitude
      targetRegions st")
  obtain res ie1 where pw: "processWaveInterference cfg env
      (map_values (map_set (e_waveId env) ?wave (activeWaves st))) (interferenceEngine st) = (res, ie1)"
    by (cases "processWaveInterference cfg env
      (map_values (map_set (e_waveId env) ?wave (activeWaves st))) (interferenceEngine st)")
  have wid: "wid = e_waveId env"
    and waves: "activeWaves st' = map_set (e_waveId env) ?wave (activeWaves st)"
    and mem: "holographicMemory st' = storeEmergent cfg env (emergentPatterns res) ?mem1"
    using p pw by (auto simp: propagateHolographicWave_def Let_def split_def)
  have A: "\<exists>wave. map_of (activeWaves st') wid = Some wave
          \<and> w_frequency wave = WaveFrequencies waveType
          \<and> w_phase wave = calculatePhase (extractTextContent content) sourceRegion
          \<and> 0 \<le> w_phase wave \<and> w_phase wave < 2 * pi"
    using calculatePhase_range[of "extractTextContent content" sourceRegion]
    by (simp add: wid waves map_of_map_set calculateWavePhase_eq)
  have F: "tableConsistent ?F \<and> f_waveType ?F = waveType \<and> f_sourceRegion ?F = sourceRegion
      \<and> f_content ?F = extractTextContent content"
    by (simp add: newFragment_consistent) (simp add: newFragment_def)
  have B: "f_frequency f = WaveFrequencies (f_waveType f)
            \<and> f_phase f = calculatePhase (f_content f) (f_sourceRegion f)
            \<and> 0 \<le> f_phase f \<and> f_phase f < 2 * pi
            \<and> (f_waveType f = waveType \<and> f_sourceRegion f = sourceRegion
                  \<and> f_content f = extractTextContent content
               \<or> f_waveType f = MEMORY \<and> f_sourceRegion f = ''InterferenceEngine'')"
    if f: "f \<in> set (map_values (fragments (holographicMemory st')))"
      and new: "f \<notin> set (map_values (fragments (holographicMemory st)))" for f
  proof -
    from f obtain k where kv: "(k, f) \<in> set (fragments (holographicMemory st'))"
      by (auto simp: map_values_def)
    from new have nold: "(k, f) \<notin> set (fragments (holographicMemory st))"
      by (force simp: map_values_def)
    from kv storeEmergent_new[of cfg env "emergentPatterns res" ?mem1]
    have "(k, f) \<in> set (fragments ?mem1) \<or> (tableConsistent f \<and> f_waveType f = MEMORY
        \<and> f_sourceRegion f = ''InterferenceEngine'')" by (auto simp: mem)
    moreover have "set (fragments ?mem1)
        \<subseteq> insert (e_fragmentIds env 0, ?F) (set (fragments (holographicMemory st)))"
      by (rule fragments_store)
    ultimately have "f = ?F \<or> (tableConsistent f \<and> f_waveType f = MEMORY
        \<and> f_sourceRegion f = ''InterferenceEngine'')" using nold by auto
    with F have "tableConsistent f \<and> (f_waveType f = waveType \<and> f_sourceRegion f = sourceRegion
                  \<and> f_content f = extractTextContent content
               \<or> f_waveType f = MEMORY \<and> f_sourceRegion f = ''InterferenceEngine'')" by auto
    then show ?thesis
      using calculatePhase_range[of "f_content f" "f_sourceRegion f"]
      by (auto simp: tableConsistent_def)
  qed
  show ?thesis unfolding p prod.case using A B by blast
qed

lemma propagate_unit_fragments:
  "map_values (fragments (holographicMemory (snd (propagateHolographicWave
       defaultHolographicConfig (envAt 1000 ''a'') ''UserInput'' (TextContent ''true story'')
       INTENT 1 [] emptyEngine))))
     = [newFragment 1000 ''frag_a'' ''true story'' ''UserInput'' INTENT 1 ''session_a'']"
  by (simp add: propagateHolographicWave_def Let_def split_def storeFragment_def
      updateCoherenceMap_def persistFragment_def cleanupOldFragments_def
      processWaveInterference_def retainedPairs_def setAll_def detectEmergentPatterns_def
      storeEmergent_def envAt_def defaultHolographicConfig_def emptyEngine_def emptyMemory_def
      map_values_def getPersistedFragments_def withTimestamp_def sevenDays_def
      List.map_filter_def newFragment_def map_delete_def)

theorem propagation_frequency_and_phase_witness:
  "\<exists>f \<in> set (map_values (fragments (holographicMemory (snd (propagateHolographicWave
       defaultHolographicConfig (envAt 1000 ''a'') ''UserInput'' (TextContent ''true story'')
       INTENT 1 [] emptyEngine))))).
     f \<notin> set (map_values (fragments (holographicMemory emptyEngine)))
     \<and> f_frequency f = 1 \<and> f_phase f = calculatePhase ''true story'' ''UserInput''
     \<and> f_phase f < 2 * pi"
proof -
  let ?P = "propagateHolographicWave
       defaultHolographicConfig (envAt 1000 ''a'') ''UserInput'' (TextContent ''true story'')
       INTENT 1 [] emptyEngine"
  let ?F = "newFragment 1000 ''frag_a'' ''true story'' ''UserInput'' INTENT 1 ''session_a''"
  have old: "map_values (fragments (holographicMemory emptyEngine)) = []"
    by (simp add: emptyEngine_def emptyMemory_def map_values_def)
  have mem: "?F \<in> set (map_values (fragments (holographicMemory (snd ?P))))"
    by (simp only: propagate_unit_fragments) simp
  have new: "?F \<notin> set (map_values (fragments (holographicMemory emptyEngine)))"
    by (simp only: old) simp
  have "\<forall>f \<in> set (map_values (fragments (holographicMemory (snd ?P)))).
          f \<notin> set (map_values (fragments (holographicMemory emptyEngine))) \<longrightarrow>
            f_frequency f = WaveFrequencies (f_waveType f)
            \<and> f_phase f = calculatePhase (f_content f) (f_sourceRegion f)
            \<and> 0 \<le> f_phase f \<and> f_phase f < 2 * pi
            \<and> (f_waveType f = INTENT \<and> f_sourceRegion f = ''UserInput''
                  \<and> f_content f = extractTextContent (TextContent ''true story'')
               \<or> f_waveType f = MEMORY \<and> f_sourceRegion f = ''InterferenceEngine'')"
    using propagation_frequency_and_phase[where cfg = defaultHolographicConfig
        and env = "envAt 1000 ''a''" and sourceRegion = "''UserInput''"
        and content = "TextContent ''true story''" and waveType = INTENT and amplitude = 1
        and targetRegions = "[]" and st = emptyEngine]
    by (simp only: split_def) (erule conjunct2)
  with mem new have "f_frequency ?F = WaveFrequencies (f_waveType ?F)
      \<and> f_phase ?F = calculatePhase (f_content ?F) (f_sourceRegion ?F) \<and> f_phase ?F < 2 * pi"
    by blast
  then have "f_frequency ?F = 1 \<and> f_phase ?F = calculatePhase ''true story'' ''UserInput''
      \<and> f_phase ?F < 2 * pi"
    by (simp add: newFragment_def)
  with mem new show ?thesis by blast
qed

subsection \<open>Rounding to doubles\<close>

lemma roundEven_eqI: "\<bar>y - of_int k\<bar> < 1/2 \<Longrightarrow> roundEven y = k"
proof -
  assume a: "\<bar>y - of_int k\<bar> < 1/2"
  show ?thesis
  proof (cases "of_int k \<le> y")
    case True
    with a have f: "\<lfloor>y\<rfloor> = k" by (intro floor_unique) linarith+
    from a True have "y - of_int k < 1/2" by linarith
    with f show ?thesis by (simp add: roundEven_def Let_def)
  next
    case False
    have km: "real_of_int (k - 1) = real_of_int k - 1" by simp
    from a False have f: "\<lfloor>y\<rfloor> = k - 1" unfolding floor_eq_iff km by linarith
    from a False have r: "1/2 < y - of_int (k - 1)" unfolding km by linarith
    then have "\<not> y - of_int (k - 1) < 1/2" by linarith
    with r f show ?thesis by (simp add: roundEven_def Let_def)
  qed
qed

lemma round64_abs_eqI:
  assumes lo: "2 ^ 52 \<le> \<bar>x\<bar> * 2 ^ n" and hi: "\<bar>x\<bar> * 2 ^ n < 2 ^ 53"
    and k: "\<bar>x * 2 ^ n - of_int k\<bar> < 1/2"
  shows "round64 x = of_int k / 2 ^ n"
proof -
  have pos: "0 < \<bar>x\<bar> * 2 ^ n" using lo by (rule less_le_trans[rotated]) simp
  then have x: "0 < \<bar>x\<bar>" by (simp add: zero_less_mult_iff)
  have l: "log 2 (\<bar>x\<bar> * 2 ^ n) = log 2 \<bar>x\<bar> + real n"
    using x by (simp add: log_mult log_nat_power)
  have "log 2 (2 ^ 52::real) = real 52 * log 2 2" by (rule log_nat_power) simp
  then have L52: "log 2 (2 ^ 52::real) = 52" by simp
  have "log 2 (2 ^ 53::real) = real 53 * log 2 2" by (rule log_nat_power) simp
  then have L53: "log 2 (2 ^ 53::real) = 53" by simp
  have "log 2 (2 ^ 52) \<le> log 2 (\<bar>x\<bar> * 2 ^ n)"
    using lo pos by (intro log_le_cancel_iff[THEN iffD2]) simp_all
  then have a: "52 \<le> log 2 \<bar>x\<bar> + real n" unfolding L52 l .
  have "log 2 (\<bar>x\<bar> * 2 ^ n) < log 2 (2 ^ 53)"
    using hi pos by (intro log_less_cancel_iff[THEN iffD2]) simp_all
  then have b: "log 2 \<bar>x\<bar> + real n < 53" unfolding L53 l .
  have e: "\<lfloor>log 2 \<bar>x\<bar>\<rfloor> = 52 - int n"
    using a b by (intro floor_unique) simp_all
  have u: "(2::real) powr (of_int (52 - int n) - 52) = 1 / 2 ^ n"
    by (simp add: powr_minus powr_realpow inverse_eq_divide)
  have "x / (1 / 2 ^ n) = x * 2 ^ n" by simp
  with roundEven_eqI[OF k] have r: "roundEven (x / (1 / 2 ^ n)) = k" by simp
  have "round64 x = of_int (roundEven (x / (2 powr (of_int \<lfloor>log 2 \<bar>x\<bar>\<rfloor> - 52))))
                      * 2 powr (of_int \<lfloor>log 2 \<bar>x\<bar>\<rfloor> - 52)"
  proof -
    from x have "x \<noteq> 0" by simp
    then show ?thesis unfolding round64_def Let_def by (rule if_not_P)
  qed
  also have "\<dots> = of_int (roundEven (x / (1 / 2 ^ n))) * (1 / 2 ^ n)"
    unfolding e u by (rule refl)
  also have "\<dots> = of_int k / 2 ^ n" unfolding r by simp
  finally show ?thesis .
qed

lemma round64_eqI:
  assumes x: "0 < x" and lo: "2 ^ 52 \<le> x * 2 ^ n" and hi: "x * 2 ^ n < 2 ^ 53"
    and k: "\<bar>x * 2 ^ n - of_int k\<bar> < 1/2"
  shows "round64 x = of_int k / 2 ^ n"
proof -
  from x have a: "\<bar>x\<bar> = x" by simp
  show ?thesis by (rule round64_abs_eqI) (simp_all only: a lo hi k)
qed

lemma round64_double:
  "2 ^ 52 \<le> k \<Longrightarrow> k < 2 ^ 53 \<Longrightarrow> round64 (of_int k / 2 ^ n) = of_int k / 2 ^ n"
proof -
  assume a: "2 ^ 52 \<le> k" and b: "k < 2 ^ 53"
  from a have "(of_int ((2::int) ^ 52) :: real) \<le> of_int k" by (simp only: of_int_le_iff)
  then have lo: "(2::real) ^ 52 \<le> of_int k" by simp
  from b have "(of_int k :: real) < of_int ((2::int) ^ 53)" by (simp only: of_int_less_iff)
  then have hi: "of_int k < (2::real) ^ 53" by simp
  from lo have pos: "0 < (of_int k :: real)" by (rule less_le_trans[rotated]) simp
  have "round64 (of_int k / 2 ^ n) = of_int k / 2 ^ n"
  proof (rule round64_eqI)
    show "0 < (of_int k :: real) / 2 ^ n" using pos by simp
    show "2 ^ 52 \<le> of_int k / 2 ^ n * (2::real) ^ n" using lo by simp
    show "of_int k / 2 ^ n * (2::real) ^ n < 2 ^ 53" using hi by simp
    show "\<bar>of_int k / 2 ^ n * (2::real) ^ n - of_int k\<bar> < 1 / 2" by simp
  qed
  then show ?thesis .
qed


lemma round64_near:
  assumes "\<bar>x * 2 ^ n - of_int k\<bar> < 1 / 2" and "2 ^ 52 < k" and "k < 2 ^ 53"
  shows "round64 x = of_int k / 2 ^ n"
proof -
  from assms(2) have "(2::int) ^ 52 + 1 \<le> k" by simp
  then have "(of_int ((2::int) ^ 52 + 1) :: real) \<le> of_int k" by (simp only: of_int_le_iff)
  then have lo: "(2::real) ^ 52 + 1 \<le> of_int k" by simp
  from assms(3) have "k \<le> (2::int) ^ 53 - 1" by simp
  then have "(of_int k :: real) \<le> of_int ((2::int) ^ 53 - 1)" by (simp only: of_int_le_iff)
  then have hi: "of_int k \<le> (2::real) ^ 53 - 1" by simp
  from lo hi have b: "2 ^ 52 \<le> x * 2 ^ n" "x * 2 ^ n < 2 ^ 53" using assms(1) by linarith+
  then have "0 < x * 2 ^ n" by (simp add: less_le_trans[of 0 "2 ^ 52"])
  then have "0 < x" by (simp add: zero_less_mult_iff)
  from round64_eqI[OF this b assms(1)] show ?thesis .
qed

lemma r_one: "round64 1 = 1"
  using round64_double[of "2 ^ 52" 52] by simp

subsection \<open>Wave decay\<close>



lemma activeWaves_propagate:
  "activeWaves (snd (propagateHolographicWave cfg env sourceRegion content waveType amplitude targetRegions st))
     = map_set (e_waveId env)
         \<lparr> w_id = e_waveId env, w_sourceRegion = sourceRegion,
           w_targetRegions = (if length targetRegions > 0 then targetRegions else [''all'']),
           w_waveType = waveType, w_frequency = WaveFrequencies waveType,
           w_phase = calculateWavePhase content sourceRegion, w_amplitude = amplitude,
           w_content = content, w_memoryFragmentIds = [e_fragmentIds env 0],
           w_timestamp = e_now env \<rparr> (activeWaves st)"
  by (simp add: propagateHolographicWave_def Let_def split_def)











subsection \<open>The reconstruction cache\<close>

lemma cache_delete_fold:
  "reconstructionCache (fold (\<lambda>fragment st.
          st\<lparr>fragments := map_delete (f_id fragment) (fragments st),
             coherenceMap := map_delete (f_id fragment) (coherenceMap st)\<rparr>) xs s)
   = reconstructionCache s"
  by (induction xs arbitrary: s) simp_all

lemma cache_cleanup: "reconstructionCache (cleanupOldFragments cfg r s) = reconstructionCache s"
  by (simp add: cleanupOldFragments_def Let_def cache_delete_fold)

lemma cache_store:
  "reconstructionCache (snd (storeFragment cfg now fid content r wt imp sess s)) = reconstructionCache s"
  by (simp add: storeFragment_def Let_def cache_cleanup persistFragment_def updateCoherenceMap_def)

lemma map_of_map_set_other: "k' \<noteq> k \<Longrightarrow> map_of (map_set k' v m) k = map_of m k"
  by (induction m) auto

lemma reconstruct_hit:
  "c \<noteq> Unserializable \<Longrightarrow> map_of (reconstructionCache s) (stringify c) = Some t \<Longrightarrow>
   reconstructInformation now c r s = (Inr (Some t), s)"
  by (simp add: reconstructInformation_def)

lemma reconstruct_text_cached:
  assumes "reconstructInformation now c r s = (Inr (Some t), s1)"
  shows "c \<noteq> Unserializable \<and> map_of (reconstructionCache s1) (stringify c) = Some t"
  using assms
  by (auto simp: reconstructInformation_def Let_def map_of_map_set
      split: if_splits option.splits)

lemma map_of_map_set_miss:
  "map_of m k = Some t \<Longrightarrow> map_of m k' = None \<Longrightarrow> map_of (map_set k' v m) k = Some t"
proof -
  assume a: "map_of m k = Some t" and b: "map_of m k' = None"
  then have "k' \<noteq> k" by auto
  then show ?thesis using a by (simp add: map_of_map_set_other)
qed

lemma reconstruct_keeps:
  assumes "map_of (reconstructionCache s) k = Some t"
  shows "map_of (reconstructionCache (snd (reconstructInformation now c r s))) k = Some t"
  using assms
  by (auto simp: reconstructInformation_def Let_def map_of_map_set_miss
      split: if_splits option.splits)

lemma applyOp_keeps:
  "map_of (reconstructionCache s) k = Some t \<Longrightarrow>
   map_of (reconstructionCache (applyOp cfg op s)) k = Some t"
  by (cases op) (simp_all add: cache_store reconstruct_keeps)

lemma ops_keep:
  "map_of (reconstructionCache s) k = Some t \<Longrightarrow>
   map_of (reconstructionCache (fold (applyOp cfg) ops s)) k = Some t"
  by (induction ops arbitrary: s) (simp_all add: applyOp_keeps)

lemma reconstruct_null_unchanged:
  "fst (reconstructInformation now c r s) = Inr None \<Longrightarrow>
   snd (reconstructInformation now c r s) = s \<and> map_of (reconstructionCache s) (stringify c) = None"
  by (auto simp: reconstructInformation_def Let_def split: if_splits option.splits)

text \<open>
  Claim C9: once \<^verbatim>\<open>reconstructInformation\<close> has returned a string \<open>t\<close> for a context, every
  later call for that context returns \<open>t\<close> again and leaves the state as it is, whatever the
  clock reading and the required coherence of the later call, and whatever calls of
  \<^verbatim>\<open>storeFragment\<close> (with their evictions) and \<^verbatim>\<open>reconstructInformation\<close> came in
  between; a \<^verbatim>\<open>null\<close> result leaves the state, and so the cache, unchanged, with no entry
  for the context, so that the next call computes again; \<^verbatim>\<open>clearCache\<close> and
  \<^verbatim>\<open>flushAllMemory\<close> empty the cache.
\<close>

theorem cache_never_invalidated:
  "(reconstructInformation now1 c r1 s = (Inr (Some t), s1) \<longrightarrow>
      (\<forall>ops now2 r2.
         reconstructInformation now2 c r2 (fold (applyOp cfg) ops s1)
           = (Inr (Some t), fold (applyOp cfg) ops s1)))
   \<and> (fst (reconstructInformation now1 c r1 s) = Inr None \<longrightarrow>
        snd (reconstructInformation now1 c r1 s) = s
        \<and> map_of (reconstructionCache s) (stringify c) = None)
   \<and> reconstructionCache (clearCache s) = []
   \<and> reconstructionCache (flushAllMemory cfg s) = []"
proof (intro conjI impI allI)
  fix ops now2 r2
  assume "reconstructInformation now1 c r1 s = (Inr (Some t), s1)"
  then have c: "c \<noteq> Unserializable" and hit: "map_of (reconstructionCache s1) (stringify c) = Some t"
    using reconstruct_text_cached by blast+
  from ops_keep[OF hit] have "map_of (reconstructionCache (fold (applyOp cfg) ops s1)) (stringify c) = Some t" .
  with c show "reconstructInformation now2 c r2 (fold (applyOp cfg) ops s1)
           = (Inr (Some t), fold (applyOp cfg) ops s1)"
    by (rule reconstruct_hit[rotated -1, rotated])
next
  assume n: "fst (reconstructInformation now1 c r1 s) = Inr None"
  from reconstruct_null_unchanged[OF n]
  show "snd (reconstructInformation now1 c r1 s) = s"
    and "map_of (reconstructionCache s) (stringify c) = None" by simp_all
next
  show "reconstructionCache (clearCache s) = []" by (simp add: clearCache_def)
  show "reconstructionCache (flushAllMemory cfg s) = []" by (simp add: flushAllMemory_def)
qed

subsection \<open>Graceful degradation\<close>

text \<open>
  Claim C6, amended: \<^verbatim>\<open>gracefulDegradation\<close> returns one of exactly three results and never
  an error: the failed result when the reconstruction throws (as it does for a context that
  \<^verbatim>\<open>JSON.stringify\<close> cannot serialize); the holographic result with the text when the
  reconstruction at the \<^verbatim>\<open>minimumCoherence\<close> floor yields a non-empty string, be it computed
  or taken from the cache; the emergency fallback otherwise, in particular when nothing is
  cached for the context and no fragment is relevant or the viability of the relevant
  fragments is below the floor.
\<close>

theorem gracefulDegradation_three_results:
  "fst (gracefulDegradation cfg now ctx st) =
     (case fst (reconstructInformation now ctx (minimumCoherence cfg) (holographicMemory st)) of
        Inl e \<Rightarrow> failedResult
      | Inr None \<Rightarrow> emergencyFallback
      | Inr (Some text) \<Rightarrow> if text = [] then emergencyFallback else holographicResult text)
   \<and> (ctx = Unserializable \<longrightarrow> fst (gracefulDegradation cfg now ctx st) = failedResult)
   \<and> (ctx \<noteq> Unserializable
        \<and> map_of (reconstructionCache (holographicMemory st)) (stringify ctx) = None
        \<and> (findRelevantFragments now ctx (holographicMemory st) = []
            \<or> assessReconstructionViability (findRelevantFragments now ctx (holographicMemory st))
                 < minimumCoherence cfg)
       \<longrightarrow> fst (gracefulDegradation cfg now ctx st) = emergencyFallback)"
proof (intro conjI impI)
  show "fst (gracefulDegradation cfg now ctx st) =
     (case fst (reconstructInformation now ctx (minimumCoherence cfg) (holographicMemory st)) of
        Inl e \<Rightarrow> failedResult
      | Inr None \<Rightarrow> emergencyFallback
      | Inr (Some text) \<Rightarrow> if text = [] then emergencyFallback else holographicResult text)"
    by (cases "reconstructInformation now ctx (minimumCoherence cfg) (holographicMemory st)")
       (auto simp: gracefulDegradation_def failedResult_def emergencyFallback_def
          holographicResult_def split: sum.splits option.splits)
next
  assume "ctx = Unserializable"
  then show "fst (gracefulDegradation cfg now ctx st) = failedResult"
    by (simp add: gracefulDegradation_def reconstructInformation_def failedResult_def)
next
  assume "ctx \<noteq> Unserializable
        \<and> map_of (reconstructionCache (holographicMemory st)) (stringify ctx) = None
        \<and> (findRelevantFragments now ctx (holographicMemory st) = []
            \<or> assessReconstructionViability (findRelevantFragments now ctx (holographicMemory st))
                 < minimumCoherence cfg)"
  then have "reconstructInformation now ctx (minimumCoherence cfg) (holographicMemory st)
      = (Inr None, holographicMemory st)"
    by (auto simp: reconstructInformation_def Let_def)
  then show "fst (gracefulDegradation cfg now ctx st) = emergencyFallback"
    by (simp add: gracefulDegradation_def emergencyFallback_def)
qed

subsection \<open>The engine after one propagation, evaluated\<close>

lemma unit_memory:
  "holographicMemory unitEngine =
     \<lparr> fragments = [(''frag_a'', newFragment 1000 ''frag_a'' ''true story'' ''UserInput'' INTENT 1 ''session_a'')],
       coherenceMap = [(''frag_a'', 1)], reconstructionCache = [],
       localStorage = Some [(''frag_a'', ObjectEntry (withTimestamp (TsIso 1000)
          (newFragment 1000 ''frag_a'' ''true story'' ''UserInput'' INTENT 1 ''session_a'')))] \<rparr>"
  by (simp add: unitEngine_def propagateHolographicWave_def Let_def split_def storeFragment_def
      updateCoherenceMap_def persistFragment_def cleanupOldFragments_def
      processWaveInterference_def retainedPairs_def setAll_def detectEmergentPatterns_def
      storeEmergent_def envAt_def defaultHolographicConfig_def emptyEngine_def emptyMemory_def
      map_values_def getPersistedFragments_def sevenDays_def
      List.map_filter_def map_delete_def) (simp add: newFragment_def withTimestamp_def sevenDays_def)

lemma unit_score:
  "relevanceScore 1000 ''true'' None (newFragment 1000 ''frag_a'' ''true story'' ''UserInput'' INTENT 1 ''session_a'') = 0.3"
  by (simp add: relevanceScore_def Let_def newFragment_def toLowerCase_def toLowerChar_def startsWith_def)

lemma unit_relevant:
  "findRelevantFragments 1000 (Context ''true'' None) (holographicMemory unitEngine)
     = [newFragment 1000 ''frag_a'' ''true story'' ''UserInput'' INTENT 1 ''session_a'']"
  by (simp add: unit_memory map_values_def unit_score toLowerCase_def toLowerChar_def)

lemma viability_single: "assessReconstructionViability [f] = 0.06"
  by (simp add: assessReconstructionViability_def)

lemma unit_text:
  "performHolographicReconstruction [newFragment 1000 ''frag_a'' ''true story'' ''UserInput'' INTENT 1 ''session_a''] = ''true story''"
  by (simp add: performHolographicReconstruction_def uniqueInOrder_def Let_def newFragment_def startsWith_def trim_def isSpace_def)

lemma unit_reconstruct:
  "reconstructInformation 1000 (Context ''true'' None) 0.05 (holographicMemory unitEngine)
     = (Inr (Some ''true story''),
        (holographicMemory unitEngine)\<lparr>reconstructionCache := [(''true'', ''true story'')]\<rparr>)"
proof -
  have "reconstructionCache (holographicMemory unitEngine) = []"
    by (simp add: unit_memory)
  then show ?thesis
    by (simp add: reconstructInformation_def unit_relevant viability_single unit_text Let_def
        del: findRelevantFragments.simps)
qed

theorem cache_never_invalidated_witness:
  "reconstructInformation 1000 (Context ''true'' None) 0.05 (holographicMemory unitEngine)
     = (Inr (Some ''true story''),
        (holographicMemory unitEngine)\<lparr>reconstructionCache := [(''true'', ''true story'')]\<rparr>)
   \<and> fst (reconstructInformation 900000000 (Context ''true'' None) 0.99
        (fold (applyOp defaultHolographicConfig)
           [Store 2000 ''frag_b'' ''another thing'' ''UserInput'' CONTEXT 0.5 ''session_b'',
            Reconstruct 3000 NullContext 0.6]
           ((holographicMemory unitEngine)\<lparr>reconstructionCache := [(''true'', ''true story'')]\<rparr>)))
       = Inr (Some ''true story'')
   \<and> reconstructInformation 1000 (Context ''true'' None) 0.6 emptyMemory = (Inr None, emptyMemory)"
proof -
  note T = cache_never_invalidated[where c = "Context ''true'' None" and cfg = defaultHolographicConfig]
  have A: "fst (reconstructInformation 900000000 (Context ''true'' None) 0.99
        (fold (applyOp defaultHolographicConfig)
           [Store 2000 ''frag_b'' ''another thing'' ''UserInput'' CONTEXT 0.5 ''session_b'',
            Reconstruct 3000 NullContext 0.6]
           ((holographicMemory unitEngine)\<lparr>reconstructionCache := [(''true'', ''true story'')]\<rparr>)))
       = Inr (Some ''true story'')"
    using T[where ?now1.0 = 1000 and ?r1.0 = "0.05" and s = "holographicMemory unitEngine"
        and t = "''true story''"
        and ?s1.0 = "(holographicMemory unitEngine)\<lparr>reconstructionCache := [(''true'', ''true story'')]\<rparr>",
        THEN conjunct1, rule_format, OF unit_reconstruct,
        where ops = "[Store 2000 ''frag_b'' ''another thing'' ''UserInput'' CONTEXT 0.5 ''session_b'',
            Reconstruct 3000 NullContext 0.6]" and ?now2.0 = 900000000 and ?r2.0 = "0.99"]
    by (simp only: fst_conv)
  have n: "fst (reconstructInformation 1000 (Context ''true'' None) 0.6 emptyMemory) = Inr None"
    by (simp add: reconstructInformation_def emptyMemory_def map_values_def)
  have B: "reconstructInformation 1000 (Context ''true'' None) 0.6 emptyMemory = (Inr None, emptyMemory)"
    using T[where ?now1.0 = 1000 and ?r1.0 = "0.6" and s = emptyMemory, THEN conjunct2, THEN conjunct1,
        rule_format, OF n] n
    by (simp add: prod_eq_iff)
  from unit_reconstruct A B show ?thesis by blast
qed

lemma findRelevantFragments_cache:
  "findRelevantFragments now c (s\<lparr>reconstructionCache := x\<rparr>) = findRelevantFragments now c s"
  by (cases c) simp_all

lemma unit_enhanced:
  "holographicMemory (snd (enhanceWithHolographicReconstruction 1000 (Context ''true'' None) 0.05
                             unitEngine))
     = (holographicMemory unitEngine)\<lparr>reconstructionCache := [(''true'', ''true story'')]\<rparr>"
  unfolding enhanceWithHolographicReconstruction_def unit_reconstruct by simp

text \<open>
  Claim C6, as stated: when the viability of the stored fragments is below the
  minimum-coherence floor, the result is the emergency fallback. It fails when a text is
  cached for the context: after a reconstruction of the context with a required coherence of
  0.05, the one relevant fragment has the viability 0.06, below the floor of 0.4, and
  \<^verbatim>\<open>gracefulDegradation\<close> answers with the cached text as a holographic reconstruction.
\<close>

theorem degradation_serves_cache_below_floor:
  "length (findRelevantFragments 1000 (Context ''true'' None)
             (holographicMemory (snd (enhanceWithHolographicReconstruction 1000
                (Context ''true'' None) 0.05 unitEngine)))) = 1
   \<and> assessReconstructionViability
         (findRelevantFragments 1000 (Context ''true'' None)
            (holographicMemory (snd (enhanceWithHolographicReconstruction 1000
               (Context ''true'' None) 0.05 unitEngine))))
       < minimumCoherence defaultHolographicConfig
   \<and> fst (gracefulDegradation defaultHolographicConfig 1000 (Context ''true'' None)
        (snd (enhanceWithHolographicReconstruction 1000 (Context ''true'' None) 0.05 unitEngine)))
     = holographicResult ''true story''"
proof -
  let ?st1 = "snd (enhanceWithHolographicReconstruction 1000 (Context ''true'' None) 0.05 unitEngine)"
  have rel: "findRelevantFragments 1000 (Context ''true'' None) (holographicMemory ?st1)
      = [newFragment 1000 ''frag_a'' ''true story'' ''UserInput'' INTENT 1 ''session_a'']"
    unfolding unit_enhanced findRelevantFragments_cache by (rule unit_relevant)
  have A: "length (findRelevantFragments 1000 (Context ''true'' None) (holographicMemory ?st1)) = 1"
    unfolding rel by simp
  have B: "assessReconstructionViability
      (findRelevantFragments 1000 (Context ''true'' None) (holographicMemory ?st1))
      < minimumCoherence defaultHolographicConfig"
    unfolding rel viability_single by (simp add: defaultHolographicConfig_def)
  have C: "fst (gracefulDegradation defaultHolographicConfig 1000 (Context ''true'' None) ?st1)
     = holographicResult ''true story''"
    unfolding gracefulDegradation_def unit_enhanced
    by (simp add: reconstructInformation_def holographicResult_def)
  from A B C show ?thesis by (intro conjI)
qed

theorem gracefulDegradation_three_results_witness:
  "fst (gracefulDegradation defaultHolographicConfig 1000 (Context ''true'' None) unitEngine)
     = emergencyFallback
   \<and> fst (gracefulDegradation defaultHolographicConfig 1000 Unserializable unitEngine) = failedResult
   \<and> fst (gracefulDegradation defaultHolographicConfig 1000 (Context ''true'' None)
        (snd (enhanceWithHolographicReconstruction 1000 (Context ''true'' None) 0.05 unitEngine)))
     = holographicResult ''true story''"
proof -
  have cache: "map_of (reconstructionCache (holographicMemory unitEngine))
      (stringify (Context ''true'' None)) = None"
    by (simp add: unit_memory)
  have ne: "Context ''true'' None \<noteq> Unserializable" by simp
  have low: "assessReconstructionViability
      (findRelevantFragments 1000 (Context ''true'' None) (holographicMemory unitEngine))
      < minimumCoherence defaultHolographicConfig"
    by (simp add: unit_relevant viability_single defaultHolographicConfig_def
        del: findRelevantFragments.simps)
  have A: "fst (gracefulDegradation defaultHolographicConfig 1000 (Context ''true'' None) unitEngine)
     = emergencyFallback"
    using gracefulDegradation_three_results[where cfg = defaultHolographicConfig and now = 1000
        and ctx = "Context ''true'' None" and st = unitEngine, THEN conjunct2, THEN conjunct2]
      cache low ne
    by blast
  have B: "fst (gracefulDegradation defaultHolographicConfig 1000 Unserializable unitEngine)
     = failedResult"
    using gracefulDegradation_three_results[where cfg = defaultHolographicConfig and now = 1000
        and ctx = Unserializable and st = unitEngine, THEN conjunct2, THEN conjunct1]
    by blast
  let ?st1 = "snd (enhanceWithHolographicReconstruction 1000 (Context ''true'' None) 0.05 unitEngine)"
  have mem1: "holographicMemory ?st1
      = (holographicMemory unitEngine)\<lparr>reconstructionCache := [(''true'', ''true story'')]\<rparr>"
    unfolding enhanceWithHolographicReconstruction_def unit_reconstruct by simp
  have hit: "fst (reconstructInformation 1000 (Context ''true'' None)
      (minimumCoherence defaultHolographicConfig) (holographicMemory ?st1)) = Inr (Some ''true story'')"
    unfolding mem1 by (simp add: reconstructInformation_def)
  have C: "fst (gracefulDegradation defaultHolographicConfig 1000 (Context ''true'' None) ?st1)
     = holographicResult ''true story''"
    using gracefulDegradation_three_results[where cfg = defaultHolographicConfig and now = 1000
        and ctx = "Context ''true'' None" and st = ?st1, THEN conjunct1]
    by (simp only: hit) simp
  from A B C show ?thesis by blast
qed

subsection \<open>Loading persisted fragments\<close>




lemma map_set_fresh: "k \<notin> fst ` set m \<Longrightarrow> map_set k v m = m @ [(k, v)]"
  by (induction m) auto
















subsection \<open>System coherence\<close>

lemma frequencyCoherence_range:
  "frequencyCoherence f1 f2 = Some fc \<Longrightarrow> 0 \<le> fc \<and> fc \<le> 1"
  by (auto simp: frequencyCoherence_def split: if_splits)

lemma calculateInterference_le_one:
  "calculateInterference now pid w1 w2 = Some p \<Longrightarrow> p_coherenceLevel p \<le> 1"
proof -
  assume a: "calculateInterference now pid w1 w2 = Some p"
  then obtain fc where fc: "frequencyCoherence (w_frequency w1) (w_frequency w2) = Some fc"
    and p: "p_coherenceLevel p = (cos \<bar>w_phase w1 - w_phase w2\<bar> + fc) / 2"
    by (auto simp: calculateInterference_def Let_def split: option.splits)
  have half: "(x + y) / 2 \<le> 1" if "x \<le> 1" "y \<le> 1" for x y :: real
    using that by simp
  from frequencyCoherence_range[OF fc] have "fc \<le> 1" by simp
  moreover have "cos \<bar>w_phase w1 - w_phase w2\<bar> \<le> 1" by (rule cos_le_one)
  ultimately show ?thesis unfolding p by (intro half)
qed

lemma retainedPairs_bounds:
  assumes "kp \<in> set (retainedPairs cfg env waves)"
  shows "constructiveThreshold cfg < p_coherenceLevel (snd kp) \<and> p_coherenceLevel (snd kp) \<le> 1"
proof -
  from assms obtain k w1 w2 where
    f: "(case calculateInterference (e_now env) (e_patternIds env k) w1 w2 of
            None \<Rightarrow> None
          | Some interference \<Rightarrow>
              if p_coherenceLevel interference > constructiveThreshold cfg
              then Some (patternId w1 w2, interference) else None) = Some kp"
    by (auto simp: retainedPairs_def List.map_filter_def)
  then obtain p where p: "calculateInterference (e_now env) (e_patternIds env k) w1 w2 = Some p"
    and gt: "p_coherenceLevel p > constructiveThreshold cfg" and kp: "kp = (patternId w1 w2, p)"
    by (auto split: option.splits if_splits)
  from calculateInterference_le_one[OF p] gt kp show ?thesis by simp
qed

lemma set_setAll: "set (setAll kvs m) \<subseteq> set kvs \<union> set m"
proof -
  have "set (fold (\<lambda>kv acc. map_set (fst kv) (snd kv) acc) kvs m) \<subseteq> set kvs \<union> set m"
  proof (induction kvs arbitrary: m)
    case Nil
    show ?case by simp
  next
    case (Cons kv kvs)
    have "set (map_set (fst kv) (snd kv) m) \<subseteq> insert kv (set m)"
      using set_map_set[of "fst kv" "snd kv" m] by simp
    with Cons.IH[of "map_set (fst kv) (snd kv) m"] show ?case by auto
  qed
  then show ?thesis by (simp add: setAll_def)
qed

lemma map_set_nonempty: "map_set k v m \<noteq> []"
  by (cases m) (auto split: if_splits)

lemma setAll_keeps_nonempty: "m \<noteq> [] \<Longrightarrow> setAll kvs m \<noteq> []"
proof -
  have "m \<noteq> [] \<Longrightarrow> fold (\<lambda>kv acc. map_set (fst kv) (snd kv) acc) kvs m \<noteq> []"
    by (induction kvs arbitrary: m) (simp_all add: map_set_nonempty)
  then show "m \<noteq> [] \<Longrightarrow> setAll kvs m \<noteq> []" by (simp add: setAll_def)
qed

lemma setAll_empty_iff: "setAll kvs [] = [] \<longleftrightarrow> kvs = []"
proof (cases kvs)
  case Nil
  then show ?thesis by (simp add: setAll_def)
next
  case (Cons kv rest)
  have "setAll rest (map_set (fst kv) (snd kv) []) \<noteq> []"
    by (rule setAll_keeps_nonempty) simp
  then show ?thesis using Cons by (simp add: setAll_def)
qed

lemma sum_list_bounds:
  "xs \<noteq> [] \<Longrightarrow> \<forall>x \<in> set xs. t < x \<and> x \<le> (1::real) \<Longrightarrow>
   t * real (length xs) < sum_list xs \<and> sum_list xs \<le> real (length xs)"
proof (induction xs rule: list_nonempty_induct)
  case (single x)
  then show ?case by simp
next
  case (cons x xs)
  then have "t * real (length xs) < sum_list xs \<and> sum_list xs \<le> real (length xs)" by simp
  moreover have "t < x \<and> x \<le> 1" using cons.prems by simp
  ultimately show ?case by (simp add: algebra_simps)
qed

lemma mean_bounds:
  assumes "xs \<noteq> []" and "\<forall>x \<in> set xs. t < x \<and> x \<le> (1::real)"
  shows "t < sum_list xs / real (length xs) \<and> sum_list xs / real (length xs) \<le> 1"
proof -
  have n: "0 < real (length xs)" using assms(1) by simp
  from sum_list_bounds[OF assms] n show ?thesis
    by (simp add: pos_less_divide_eq pos_divide_le_eq)
qed

lemma processWaveInterference_results:
  "interferenceResults (fst (processWaveInterference cfg env waves st))
     = setAll (retainedPairs cfg env waves) []"
  "systemCoherence (fst (processWaveInterference cfg env waves st))
     = calculateSystemCoherence (setAll (retainedPairs cfg env waves) [])"
  by (simp_all add: processWaveInterference_def Let_def split_def)

lemma results_bounds:
  assumes "kp \<in> set (setAll (retainedPairs cfg env waves) [])"
  shows "constructiveThreshold cfg < p_coherenceLevel (snd kp) \<and> p_coherenceLevel (snd kp) \<le> 1"
proof -
  from assms set_setAll[of "retainedPairs cfg env waves" "[]"]
  have "kp \<in> set (retainedPairs cfg env waves)" by auto
  then show ?thesis by (rule retainedPairs_bounds)
qed

lemma calculateSystemCoherence_nonempty:
  assumes ne: "rs \<noteq> []" and b: "\<forall>kp \<in> set rs. t < p_coherenceLevel (snd kp) \<and> p_coherenceLevel (snd kp) \<le> 1"
    and t: "0 \<le> t"
  shows "calculateSystemCoherence rs
           = min 1 (sum_list (map p_coherenceLevel (map_values rs)) / real (length rs)
                    + min 0.2 (real (length rs) * 0.05))"
    and "t < sum_list (map p_coherenceLevel (map_values rs)) / real (length rs)"
    and "sum_list (map p_coherenceLevel (map_values rs)) / real (length rs) \<le> 1"
    and "t + 0.05 < sum_list (map p_coherenceLevel (map_values rs)) / real (length rs)
                    + min 0.2 (real (length rs) * 0.05)"
    and "calculateSystemCoherence rs \<le> 1"
proof -
  let ?xs = "map p_coherenceLevel (map_values rs)"
  let ?mean = "sum_list ?xs / real (length rs)"
  have len: "length ?xs = length rs" by (simp add: map_values_def)
  have xs: "?xs \<noteq> []" using ne by (simp add: map_values_def)
  have "\<forall>x \<in> set ?xs. t < x \<and> x \<le> 1" using b by (auto simp: map_values_def)
  from mean_bounds[OF xs this] show m1: "t < ?mean" and m2: "?mean \<le> 1"
    unfolding len by simp_all
  show eq: "calculateSystemCoherence rs = min 1 (?mean + min 0.2 (real (length rs) * 0.05))"
    using ne by (simp add: calculateSystemCoherence_def Let_def map_values_def)
  have "1 \<le> real (length rs)" using ne by (cases rs) simp_all
  then have "0.05 \<le> min 0.2 (real (length rs) * 0.05)" by simp
  with m1 show "t + 0.05 < ?mean + min 0.2 (real (length rs) * 0.05)" by linarith
  show "calculateSystemCoherence rs \<le> 1" unfolding eq by simp
qed

text \<open>
  Claim C4, amended: with a non-negative constructive threshold, the \<^verbatim>\<open>systemCoherence\<close> that
  \<^verbatim>\<open>processWaveInterference\<close> returns lies in \<open>[0, 1]\<close>; it is 0.5 when the call retains no
  pattern; when the call retains patterns it is the mean coherence of the retained patterns
  (which is above the threshold and at most 1) plus \<open>min 0.2 (count * 0.05)\<close>, clamped to 1;
  and when the threshold is at least 0.45 it is 0.5 exactly when no pattern is retained (for
  a lower threshold the value 0.5 does not tell that no pattern was retained).
\<close>

theorem systemCoherence_range:
  assumes "0 \<le> constructiveThreshold cfg"
  shows "let res = fst (processWaveInterference cfg env waves st);
             n = length (interferenceResults res);
             mean = sum_list (map p_coherenceLevel (map_values (interferenceResults res))) / real n
         in 0 \<le> systemCoherence res \<and> systemCoherence res \<le> 1
            \<and> (n = 0 \<longrightarrow> systemCoherence res = 0.5)
            \<and> (n \<noteq> 0 \<longrightarrow>
                  systemCoherence res = min 1 (mean + min 0.2 (real n * 0.05))
                  \<and> constructiveThreshold cfg < mean \<and> mean \<le> 1)
            \<and> (0.45 \<le> constructiveThreshold cfg \<longrightarrow> (systemCoherence res = 0.5 \<longleftrightarrow> n = 0))"
proof -
  let ?rs = "setAll (retainedPairs cfg env waves) []"
  let ?t = "constructiveThreshold cfg"
  let ?mean = "sum_list (map p_coherenceLevel (map_values ?rs)) / real (length ?rs)"
  have b: "\<forall>kp \<in> set ?rs. ?t < p_coherenceLevel (snd kp) \<and> p_coherenceLevel (snd kp) \<le> 1"
    using results_bounds by blast
  have empty: "calculateSystemCoherence ?rs = 0.5" if "length ?rs = 0"
    using that by (simp add: calculateSystemCoherence_def)
  note ne = calculateSystemCoherence_nonempty[OF _ b assms]
  have range: "0 \<le> calculateSystemCoherence ?rs \<and> calculateSystemCoherence ?rs \<le> 1"
  proof (cases "length ?rs = 0")
    case True
    with empty show ?thesis by simp
  next
    case False
    then have r: "?rs \<noteq> []" by simp
    from ne(1)[OF r] ne(4)[OF r] ne(5)[OF r] assms show ?thesis
      by (simp add: min_def split: if_splits)
  qed
  have formula: "length ?rs \<noteq> 0 \<longrightarrow>
      calculateSystemCoherence ?rs = min 1 (?mean + min 0.2 (real (length ?rs) * 0.05))
      \<and> ?t < ?mean \<and> ?mean \<le> 1"
  proof
    assume "length ?rs \<noteq> 0"
    then have r: "?rs \<noteq> []" by simp
    from ne(1)[OF r] ne(2)[OF r] ne(3)[OF r]
    show "calculateSystemCoherence ?rs = min 1 (?mean + min 0.2 (real (length ?rs) * 0.05))
      \<and> ?t < ?mean \<and> ?mean \<le> 1" by (intro conjI)
  qed
  have iff: "0.45 \<le> ?t \<longrightarrow> (calculateSystemCoherence ?rs = 0.5 \<longleftrightarrow> length ?rs = 0)"
  proof
    assume big: "0.45 \<le> ?t"
    show "calculateSystemCoherence ?rs = 0.5 \<longleftrightarrow> length ?rs = 0"
    proof
      assume h: "calculateSystemCoherence ?rs = 0.5"
      show "length ?rs = 0"
      proof (rule ccontr)
        assume "length ?rs \<noteq> 0"
        then have r: "?rs \<noteq> []" by simp
        from ne(1)[OF r] ne(4)[OF r] big have "0.5 < calculateSystemCoherence ?rs"
          by (simp add: min_def split: if_splits)
        with h show False by simp
      qed
    next
      assume "length ?rs = 0"
      then show "calculateSystemCoherence ?rs = 0.5" by (rule empty)
    qed
  qed
  from range empty formula iff show ?thesis
    unfolding Let_def processWaveInterference_results by blast
qed

lemma singleton_results:
  assumes "map (\<lambda>kp. (fst kp, p_coherenceLevel (snd kp), p_emergentContent (snd kp))) rs = [(k, c, e)]"
  shows "length (setAll rs []) = 1" and "calculateSystemCoherence (setAll rs []) = min 1 (c + 0.05)"
proof -
  from assms obtain kp where rs: "rs = [kp]" and c: "p_coherenceLevel (snd kp) = c" by auto
  have s: "setAll rs [] = [kp]" by (simp add: rs setAll_def)
  show "length (setAll rs []) = 1" by (simp add: s)
  show "calculateSystemCoherence (setAll rs []) = min 1 (c + 0.05)"
    by (simp add: s calculateSystemCoherence_def map_values_def c)
qed

lemma rust_pair:
  "map (\<lambda>kp. (fst kp, p_coherenceLevel (snd kp), p_emergentContent (snd kp)))
     (retainedPairs defaultHolographicConfig env
        [plainWave ''w1'' 0 1 ''Rust and Go are great'',
         plainWave ''w2'' 0 1 ''Rust is excellent for systems work''])
   = [(''w1-w2'', 1,
       Some (''Emergent insight: Connection between '' @ quote @ ''Rust and Go are great'' @ quote
             @ '' and '' @ quote @ ''Rust is excellent for systems work'' @ quote
             @ '' through common elements: rust''))]"
  by (simp add: retainedPairs_def List.map_filter_def calculateInterference_def Let_def
      frequencyCoherence_def plainWave_def patternId_def synthesizeContent_def
      defaultHolographicConfig_def toLowerCase_def toLowerChar_def isSpace_def)

theorem systemCoherence_range_witness:
  "0 \<le> constructiveThreshold defaultHolographicConfig
   \<and> length (interferenceResults (fst (processWaveInterference defaultHolographicConfig
        (envAt 0 ''a'')
        [plainWave ''w1'' 0 1 ''Rust and Go are great'',
         plainWave ''w2'' 0 1 ''Rust is excellent for systems work''] emptyInterference))) = 1
   \<and> systemCoherence (fst (processWaveInterference defaultHolographicConfig (envAt 0 ''a'')
        [plainWave ''w1'' 0 1 ''Rust and Go are great'',
         plainWave ''w2'' 0 1 ''Rust is excellent for systems work''] emptyInterference)) \<noteq> 0.5
   \<and> systemCoherence (fst (processWaveInterference defaultHolographicConfig (envAt 0 ''a'')
        [] emptyInterference)) = 0.5"
proof -
  let ?two = "[plainWave ''w1'' 0 1 ''Rust and Go are great'',
         plainWave ''w2'' 0 1 ''Rust is excellent for systems work'']"
  have t: "0 \<le> constructiveThreshold defaultHolographicConfig"
    and big: "0.45 \<le> constructiveThreshold defaultHolographicConfig"
    by (simp_all add: defaultHolographicConfig_def)
  have one: "length (interferenceResults (fst (processWaveInterference defaultHolographicConfig
        (envAt 0 ''a'') ?two emptyInterference))) = 1"
    using singleton_results(1)[OF rust_pair] by (simp add: processWaveInterference_results)
  have none: "length (interferenceResults (fst (processWaveInterference defaultHolographicConfig
        (envAt 0 ''a'') [] emptyInterference))) = 0"
    by (simp add: processWaveInterference_results retainedPairs_def List.map_filter_def setAll_def)
  note T2 = systemCoherence_range[OF t, of "envAt 0 ''a''" ?two emptyInterference, unfolded Let_def]
  note T0 = systemCoherence_range[OF t, of "envAt 0 ''a''" "[]" emptyInterference, unfolded Let_def]
  from T2[THEN conjunct2, THEN conjunct2, THEN conjunct2, THEN conjunct2, THEN mp, OF big] one
  have A: "systemCoherence (fst (processWaveInterference defaultHolographicConfig (envAt 0 ''a'')
        ?two emptyInterference)) \<noteq> 0.5"
    by simp
  from T0[THEN conjunct2, THEN conjunct2, THEN conjunct1, THEN mp, OF none]
  have B: "systemCoherence (fst (processWaveInterference defaultHolographicConfig (envAt 0 ''a'')
        [] emptyInterference)) = 0.5" .
  from t one A B show ?thesis by (intro conjI)
qed

subsection \<open>System coherence in doubles\<close>

lemma cos_poly:
  fixes x :: real
  shows "(\<Sum>m<16. cos_coeff m * x ^ m)
     = 1 - x^2 / 2 + x^4 / 24 - x^6 / 720 + x^8 / 40320 - x^10 / 3628800
       + x^12 / 479001600 - x^14 / 87178291200"
  by (simp add: eval_nat_numeral sum.lessThan_Suc cos_coeff_Suc sin_coeff_Suc)

lemma cos_enclosure:
  fixes x :: real
  assumes "0 < x"
  shows "\<bar>cos x - (1 - x^2 / 2 + x^4 / 24 - x^6 / 720 + x^8 / 40320 - x^10 / 3628800
       + x^12 / 479001600 - x^14 / 87178291200)\<bar> \<le> x^16 / 20922789888000"
proof -
  from Maclaurin_cos_expansion2[OF assms, of 16]
  obtain t where c: "cos x = (\<Sum>m<16. cos_coeff m * x ^ m)
      + cos (t + 1/2 * real (16::nat) * pi) / fact 16 * x ^ 16" by auto
  define R where "R = cos (t + 1/2 * real (16::nat) * pi) / fact 16 * x ^ 16"
  have c1: "\<bar>cos (t + 1/2 * real (16::nat) * pi)\<bar> \<le> 1" by (rule abs_cos_le_one)
  have f16: "(fact 16 :: real) = 20922789888000" by (simp add: fact_numeral)
  have nn: "0 \<le> x ^ 16 / 20922789888000" using assms by simp
  have "\<bar>R\<bar> = \<bar>cos (t + 1/2 * real (16::nat) * pi)\<bar> * (x ^ 16 / 20922789888000)"
    unfolding R_def f16 using assms by (simp add: abs_mult)
  also have "\<dots> \<le> 1 * (x ^ 16 / 20922789888000)"
    by (rule mult_right_mono[OF c1 nn])
  finally have r: "\<bar>R\<bar> \<le> x^16 / 20922789888000" by simp
  have "cos x = (1 - x^2 / 2 + x^4 / 24 - x^6 / 720 + x^8 / 40320 - x^10 / 3628800
       + x^12 / 479001600 - x^14 / 87178291200) + R"
    using c unfolding cos_poly R_def .
  with r show ?thesis by simp
qed

lemma cos_phase64: "\<bar>cos phase64 * 2 ^ 53 - 7658037284168130\<bar> < 1 / 2"
proof -
  define x :: real where "x = 4993651520871462 / 2 ^ 53"
  define P where "P = 1 - x^2 / 2 + x^4 / 24 - x^6 / 720 + x^8 / 40320 - x^10 / 3628800
       + x^12 / 479001600 - x^14 / 87178291200"
  have x: "0 < x" by (simp add: x_def)
  from cos_enclosure[OF x] have e: "\<bar>cos x - P\<bar> \<le> x^16 / 20922789888000" unfolding P_def .
  have lo: "7658037284168130 - 1/2 < (P - x^16 / 20922789888000) * 2 ^ 53"
    unfolding P_def x_def by (simp add: power_divide)
  have hi: "(P + x^16 / 20922789888000) * 2 ^ 53 < 7658037284168130 + 1/2"
    unfolding P_def x_def by (simp add: power_divide)
  from e have "P - x^16 / 20922789888000 \<le> cos x" "cos x \<le> P + x^16 / 20922789888000"
    by linarith+
  then have "(P - x^16 / 20922789888000) * 2 ^ 53 \<le> cos x * 2 ^ 53"
    "cos x * 2 ^ 53 \<le> (P + x^16 / 20922789888000) * 2 ^ 53"
    by (simp_all only: mult_le_cancel_right_pos zero_less_power zero_less_numeral)
  with lo hi show ?thesis unfolding phase64_def x_def by linarith
qed

lemma exp_three_le: "exp (3::real) \<le> 27"
proof -
  have "exp (3::real) = exp 1 * exp 1 * exp 1" by (simp flip: exp_add)
  also have "\<dots> \<le> 3 * 3 * 3" by (intro mult_mono exp_le) simp_all
  finally show ?thesis by simp
qed

lemma exp_sum_lo: "7175072721580207 - 1/2 + 1/10 < (\<Sum>m<32. (- 3) ^ m / fact m) * (2 ^ 57 :: real)"
  by (simp add: eval_nat_numeral sum.lessThan_Suc)

lemma exp_sum_hi: "(\<Sum>m<32. (- 3) ^ m / fact m) * (2 ^ 57 :: real) < 7175072721580207 + 1/2 - 1/10"
  by (simp add: eval_nat_numeral sum.lessThan_Suc)

lemma exp_minus_three: "\<bar>exp (- 3 :: real) * 2 ^ 57 - 7175072721580207\<bar> < 1 / 2"
proof -
  from Maclaurin_exp_le[of "- 3 :: real" 32]
  obtain t :: real where t: "\<bar>t\<bar> \<le> 3"
    and e: "exp (- 3 :: real) = (\<Sum>m<32. (- 3) ^ m / fact m) + exp t / fact 32 * (- 3) ^ 32"
    by auto
  define R :: real where "R = exp t / fact 32 * (- 3) ^ 32"
  define c :: real where "c = 3 ^ 32 / 263130836933693530167218012160000000"
  have f32: "(fact 32 :: real) = 263130836933693530167218012160000000"
    by (simp add: fact_numeral)
  have "exp t \<le> exp 3" using t by simp
  with exp_three_le have et: "exp t \<le> 27" by linarith
  have R: "R = exp t * c" unfolding R_def c_def f32 by simp
  have c0: "0 \<le> c" unfolding c_def by simp
  have r0: "0 \<le> R" unfolding R using c0 by simp
  have "R \<le> 27 * c" unfolding R by (rule mult_right_mono[OF et c0])
  then have "R * 2 ^ 57 \<le> 27 * c * 2 ^ 57" by (rule mult_right_mono) simp
  moreover have "27 * c * 2 ^ 57 < 1 / 10" unfolding c_def by simp
  ultimately have r: "0 \<le> R * 2 ^ 57" "R * 2 ^ 57 < 1 / 10" using r0 by simp_all
  have "exp (- 3 :: real) * 2 ^ 57 = (\<Sum>m<32. (- 3) ^ m / fact m) * 2 ^ 57 + R * 2 ^ 57"
    unfolding e R_def by (simp only: distrib_right)
  with exp_sum_lo exp_sum_hi r show ?thesis by linarith
qed

lemma r_phase: "round64 (phase64 - 0) = phase64"
  unfolding phase64_def diff_zero using round64_double[of 4993651520871462 53] by simp

lemma r_cos: "round64 (cos phase64) = 7658037284168130 / 2 ^ 53"
  using round64_near[of "cos phase64" 53 7658037284168130] cos_phase64 by simp

lemma r_ratio: "round64 (2 / (1 / 2)) = 4"
  using round64_double[of "2 ^ 52" 50] by simp

lemma r_sub: "round64 (4 - 1) = 3"
  using round64_double[of "3 * 2 ^ 51" 51] by simp

lemma r_exp: "round64 (exp (- 3)) = 7175072721580207 / 2 ^ 57"
  using round64_near[of "exp (- 3)" 57 7175072721580207] exp_minus_three by simp

lemma r_sum: "round64 (7658037284168130 / 2 ^ 53 + 7175072721580207 / 2 ^ 57) = 8106479329266893 / 2 ^ 53"
  using round64_near[of "7658037284168130 / 2 ^ 53 + 7175072721580207 / 2 ^ 57" 53 8106479329266893]
  by simp

lemma r_half: "round64 (8106479329266893 / 2 ^ 53 / 2) = 8106479329266893 / 2 ^ 54"
  using round64_double[of 8106479329266893 54] by simp

lemma half_level:
  "coherenceLevel64 (plainWave ''w1'' phase64 2 ''first'') (plainWave ''w2'' 0 (1 / 2) ''second'')
     = Some (8106479329266893 / 2 ^ 54)"
proof -
  have sel: "w_phase (plainWave ''w1'' phase64 2 ''first'') = phase64"
    "w_phase (plainWave ''w2'' 0 (1 / 2) ''second'') = 0"
    "w_frequency (plainWave ''w1'' phase64 2 ''first'') = 2"
    "w_frequency (plainWave ''w2'' 0 (1 / 2) ''second'') = 1 / 2"
    by (simp_all add: plainWave_def)
  have ab: "\<bar>phase64\<bar> = phase64" "\<bar>3::real\<bar> = 3" by (simp_all add: phase64_def)
  have nz: "((1 / 2 :: real) = 0) = False" by simp
  show ?thesis
    unfolding coherenceLevel64_def frequencyCoherence64_def Let_def sel r_phase ab(1) r_cos nz
      if_False r_ratio r_sub ab(2) r_exp option.case r_sum r_half
    by (rule refl)
qed


lemma r_thr: "round64 (3 / 10) = 5404319552844595 / 2 ^ 54"
  using round64_near[of "3 / 10" 54 5404319552844595] by simp

lemma half_retained:
  "retainedLevels64 lowThresholdConfig halfWaves = [(''w1-w2'', 8106479329266893 / 2 ^ 54)]"
proof -
  have thr: "constructiveThreshold lowThresholdConfig = 3 / 10"
    by (simp add: lowThresholdConfig_def defaultHolographicConfig_def)
  have gt: "(5404319552844595 / 2 ^ 54 :: real) < 8106479329266893 / 2 ^ 54" by simp
  have key: "patternId (plainWave ''w1'' phase64 2 ''first'') (plainWave ''w2'' 0 (1 / 2) ''second'')
      = ''w1-w2''" by (simp add: patternId_def plainWave_def)
  show ?thesis
    unfolding retainedLevels64_def halfWaves_def thr r_thr
    by (simp only: pairs.simps list.map append_Nil2 List.map_filter_simps prod.case half_level
        option.case gt if_True key)
qed

lemma calc64_single:
  "calculateSystemCoherence64 [(k, v)]
     = min (round64 1) (round64 (round64 (round64 v) + min (round64 (1 / 5)) (round64 (round64 (1 / 20)))))"
  by (simp add: calculateSystemCoherence64_def map_values_def)

lemma r_id: "round64 (8106479329266893 / 2 ^ 54) = 8106479329266893 / 2 ^ 54"
  using round64_double[of 8106479329266893 54] by simp

lemma r_twentieth: "round64 (1 / 20) = 7205759403792794 / 2 ^ 57"
  using round64_near[of "1 / 20" 57 7205759403792794] by simp

lemma r_twentieth_id: "round64 (7205759403792794 / 2 ^ 57) = 7205759403792794 / 2 ^ 57"
  using round64_double[of 7205759403792794 57] by simp

lemma r_fifth: "round64 (1 / 5) = 7205759403792794 / 2 ^ 55"
  using round64_near[of "1 / 5" 55 7205759403792794] by simp

lemma r_final: "round64 (8106479329266893 / 2 ^ 54 + 7205759403792794 / 2 ^ 57) = 1 / 2"
  using round64_eqI[of "8106479329266893 / 2 ^ 54 + 7205759403792794 / 2 ^ 57" 53 "2 ^ 52"] by simp

lemma half_system: "systemCoherence64 lowThresholdConfig halfWaves = (1, 1 / 2)"
proof -
  have m: "min (7205759403792794 / 2 ^ 55) (7205759403792794 / 2 ^ 57 :: real) = 7205759403792794 / 2 ^ 57"
    by simp
  have m1: "min 1 (1 / 2 :: real) = 1 / 2" by simp
  have s: "setAll [(''w1-w2'', 8106479329266893 / 2 ^ 54 :: real)] [] = [(''w1-w2'', 8106479329266893 / 2 ^ 54)]"
    by (simp add: setAll_def)
  have l: "length [(''w1-w2'', 8106479329266893 / 2 ^ 54 :: real)] = 1" by simp
  show ?thesis
    unfolding systemCoherence64_def Let_def half_retained s l calc64_single r_id r_twentieth
      r_twentieth_id r_fifth m r_final r_one m1
    by (rule refl)
qed

text \<open>
  Claim C4, as stated: \<^verbatim>\<open>systemCoherence\<close> equals 0.5 exactly when no pattern is retained. It
  fails in the arithmetic of the code, for a constructive threshold below 0.45: with the
  threshold at 0.3, two waves of the table frequencies 2.0 and 0.5 whose phases differ by the
  double \<^verbatim>\<open>0.5544066895425928\<close> give one retained pattern; its coherence level is the double
  \<^verbatim>\<open>0.45\<close>, and the sum of the doubles \<^verbatim>\<open>0.45\<close> and \<^verbatim>\<open>0.05\<close> rounds to 0.5, the value of
  the call without patterns.
\<close>

theorem systemCoherence64_half_with_pattern:
  "0 \<le> constructiveThreshold lowThresholdConfig
   \<and> systemCoherence64 lowThresholdConfig
        [plainWave ''w1'' (4993651520871462 / 2 ^ 53) 2 ''first'', plainWave ''w2'' 0 (1 / 2) ''second'']
      = (1, 0.5)
   \<and> systemCoherence64 lowThresholdConfig [] = (0, 0.5)"
proof -
  have e: "systemCoherence64 lowThresholdConfig [] = (0, round64 (1 / 2))"
    by (simp add: systemCoherence64_def retainedLevels64_def List.map_filter_def setAll_def
        calculateSystemCoherence64_def)
  have h: "round64 (1 / 2) = 1 / 2" using round64_double[of "2 ^ 52" 53] by simp
  have t: "0 \<le> constructiveThreshold lowThresholdConfig"
    by (simp add: lowThresholdConfig_def defaultHolographicConfig_def)
  from half_system e t show ?thesis unfolding h halfWaves_def phase64_def by simp
qed

subsection \<open>Emergent behaviours and the pattern cache\<close>

lemma setAll_fresh:
  "distinct (map fst kvs) \<Longrightarrow> fst ` set kvs \<inter> fst ` set m = {} \<Longrightarrow> setAll kvs m = m @ kvs"
proof -
  have "distinct (map fst kvs) \<Longrightarrow> fst ` set kvs \<inter> fst ` set m = {} \<Longrightarrow>
        fold (\<lambda>kv acc. map_set (fst kv) (snd kv) acc) kvs m = m @ kvs"
  proof (induction kvs arbitrary: m)
    case Nil
    show ?case by simp
  next
    case (Cons kv kvs)
    have fresh: "fst kv \<notin> fst ` set m" using Cons.prems(2) by auto
    have step: "map_set (fst kv) (snd kv) m = m @ [kv]"
      using map_set_fresh[OF fresh, of "snd kv"] by simp
    have d: "distinct (map fst kvs)" and nk: "fst kv \<notin> fst ` set kvs"
      using Cons.prems(1) by auto
    have "fst ` set kvs \<inter> fst ` set (m @ [kv]) = {}"
    proof (rule ccontr)
      assume "fst ` set kvs \<inter> fst ` set (m @ [kv]) \<noteq> {}"
      then obtain k where k1: "k \<in> fst ` set kvs" and k2: "k \<in> fst ` set (m @ [kv])" by auto
      from k2 have "k \<in> fst ` set m \<or> k = fst kv" by auto
      then show False
      proof
        assume km: "k \<in> fst ` set m"
        from k1 have "k \<in> fst ` set (kv # kvs)" by auto
        from this km have "k \<in> fst ` set (kv # kvs) \<inter> fst ` set m" by (rule IntI)
        with Cons.prems(2) show False by simp
      next
        assume "k = fst kv"
        with k1 nk show False by simp
      qed
    qed
    from Cons.IH[OF d this] show ?case by (simp add: step)
  qed
  then show "distinct (map fst kvs) \<Longrightarrow> fst ` set kvs \<inter> fst ` set m = {} \<Longrightarrow> setAll kvs m = m @ kvs"
    by (simp add: setAll_def)
qed

lemma keys_map_set:
  "map fst (map_set k v m) = (if k \<in> fst ` set m then map fst m else map fst m @ [k])"
proof (induction m)
  case Nil
  show ?case by simp
next
  case (Cons x m)
  obtain a b where x: "x = (a, b)" by (cases x)
  show ?case
  proof (cases "a = k")
    case True
    then show ?thesis by (simp add: x)
  next
    case False
    then have "k \<in> fst ` set (x # m) \<longleftrightarrow> k \<in> fst ` set m" by (auto simp: x)
    with False Cons.IH show ?thesis by (simp add: x)
  qed
qed

lemma map_set_present: "k \<in> fst ` set m \<Longrightarrow> map fst (map_set k v m) = map fst m"
  by (simp add: keys_map_set)

lemma setAll_keys_present:
  "fst ` set kvs \<subseteq> fst ` set m \<Longrightarrow> map fst (setAll kvs m) = map fst m"
proof -
  have "fst ` set kvs \<subseteq> fst ` set m \<Longrightarrow>
        map fst (fold (\<lambda>kv acc. map_set (fst kv) (snd kv) acc) kvs m) = map fst m"
  proof (induction kvs arbitrary: m)
    case Nil
    show ?case by simp
  next
    case (Cons kv kvs)
    have k: "fst kv \<in> fst ` set m" using Cons.prems by auto
    have keys: "map fst (map_set (fst kv) (snd kv) m) = map fst m"
      by (rule map_set_present[OF k])
    then have "fst ` set (map_set (fst kv) (snd kv) m) = fst ` set m"
      by (metis set_map)
    with Cons.prems have "fst ` set kvs \<subseteq> fst ` set (map_set (fst kv) (snd kv) m)" by auto
    from Cons.IH[OF this] keys show ?case by simp
  qed
  then show "fst ` set kvs \<subseteq> fst ` set m \<Longrightarrow> map fst (setAll kvs m) = map fst m"
    by (simp add: setAll_def)
qed

lemma setAll_keys: "fst ` set (setAll kvs m) = fst ` set kvs \<union> fst ` set m"
proof -
  have ms: "fst ` set (map_set k v m') = insert k (fst ` set m')" for k v and m' :: "('a \<times> 'b) list"
  proof -
    have "set (map fst (map_set k v m')) = insert k (set (map fst m'))"
      unfolding keys_map_set by auto
    then show ?thesis by simp
  qed
  have "fst ` set (fold (\<lambda>kv acc. map_set (fst kv) (snd kv) acc) kvs m) = fst ` set kvs \<union> fst ` set m"
    by (induction kvs arbitrary: m) (auto simp: ms)
  then show ?thesis by (simp add: setAll_def)
qed

lemma map_filter_keys:
  "(\<And>x. x \<in> set xs \<Longrightarrow> map_option fst (f x) = map_option fst (g x)) \<Longrightarrow>
   map fst (List.map_filter f xs) = map fst (List.map_filter g xs)"
proof (induction xs)
  case Nil
  show ?case by (simp add: List.map_filter_simps)
next
  case (Cons x xs)
  have x: "map_option fst (f x) = map_option fst (g x)" using Cons.prems by simp
  have rest: "map fst (List.map_filter f xs) = map fst (List.map_filter g xs)"
    using Cons by simp
  show ?case
  proof (cases "f x")
    case None
    with x have "g x = None" by simp
    with None rest show ?thesis by (simp add: List.map_filter_simps)
  next
    case (Some y)
    with x obtain z where z: "g x = Some z" "fst z = fst y" by (cases "g x") auto
    with Some rest show ?thesis by (simp add: List.map_filter_simps)
  qed
qed

lemma coherence_env_free:
  "map_option p_coherenceLevel (calculateInterference now pid w1 w2)
     = map_option p_coherenceLevel (calculateInterference now' pid' w1 w2)"
  by (simp add: calculateInterference_def Let_def split: option.splits)

lemma retained_keys_env_free:
  "map fst (retainedPairs cfg env waves) = map fst (retainedPairs cfg env' waves)"
  unfolding retainedPairs_def
proof (rule map_filter_keys)
  fix x :: "nat \<times> HolographicWave \<times> HolographicWave"
  obtain k w1 w2 where x: "x = (k, w1, w2)" by (cases x)
  let ?a = "calculateInterference (e_now env) (e_patternIds env k) w1 w2"
  let ?b = "calculateInterference (e_now env') (e_patternIds env' k) w1 w2"
  have eq: "map_option p_coherenceLevel ?a = map_option p_coherenceLevel ?b"
    by (rule coherence_env_free)
  have "map_option fst
          (case ?a of None \<Rightarrow> None
           | Some interference \<Rightarrow>
               if constructiveThreshold cfg < p_coherenceLevel interference
               then Some (patternId w1 w2, interference) else None)
        = map_option fst
          (case ?b of None \<Rightarrow> None
           | Some interference \<Rightarrow>
               if constructiveThreshold cfg < p_coherenceLevel interference
               then Some (patternId w1 w2, interference) else None)"
  proof (cases ?a)
    case None
    with eq have "?b = None" by simp
    with None show ?thesis by simp
  next
    case (Some p)
    with eq obtain q where q: "?b = Some q" "p_coherenceLevel q = p_coherenceLevel p"
      by (cases ?b) auto
    with Some show ?thesis by simp
  qed
  then show "map_option fst
          (case x of (k, wave1, wave2) \<Rightarrow>
             case calculateInterference (e_now env) (e_patternIds env k) wave1 wave2 of
               None \<Rightarrow> None
             | Some interference \<Rightarrow>
                 if constructiveThreshold cfg < p_coherenceLevel interference
                 then Some (patternId wave1 wave2, interference) else None)
        = map_option fst
          (case x of (k, wave1, wave2) \<Rightarrow>
             case calculateInterference (e_now env') (e_patternIds env' k) wave1 wave2 of
               None \<Rightarrow> None
             | Some interference \<Rightarrow>
                 if constructiveThreshold cfg < p_coherenceLevel interference
                 then Some (patternId wave1 wave2, interference) else None)"
    by (simp add: x)
qed

lemma processWaveInterference_state:
  "activePatterns (snd (processWaveInterference cfg env waves ie))
     = setAll (retainedPairs cfg env waves) (activePatterns ie)"
  "emergentBehaviors (snd (processWaveInterference cfg env waves ie))
     = setAll (map (\<lambda>b. (b_id b, b))
                 (map (\<lambda>(k, interference). makeBehavior (e_now env) (e_behaviorIds env k) interference)
                    (enumerate 0 (filter (qualifies cfg)
                       (map_values (setAll (retainedPairs cfg env waves) []))))))
         (emergentBehaviors ie)"
  "emergentPatterns (fst (processWaveInterference cfg env waves ie))
     = map (\<lambda>(k, interference). makeBehavior (e_now env) (e_behaviorIds env k) interference)
         (enumerate 0 (filter (qualifies cfg)
            (map_values (setAll (retainedPairs cfg env waves) []))))"
  by (simp_all add: processWaveInterference_def detectEmergentPatterns_def Let_def split_def)

lemma getSystemState_state:
  "snd (getSystemState cfg env st)
     = st\<lparr>interferenceEngine :=
           snd (processWaveInterference cfg env (map_values (activeWaves st)) (interferenceEngine st))\<rparr>"
  "s_emergentBehaviors (fst (getSystemState cfg env st))
     = length (emergentPatterns (fst (processWaveInterference cfg env (map_values (activeWaves st))
                 (interferenceEngine st))))"
  by (simp_all add: getSystemState_def Let_def split_def)

lemma behavior_keys:
  "map fst (map (\<lambda>b. (b_id b, b))
      (map (\<lambda>(k, interference). makeBehavior now (ids k) interference) (enumerate 0 qs)))
   = map ids [0..<length qs]"
proof -
  have a: "map fst (enumerate 0 qs) = [0..<length qs]" by (simp add: map_fst_enumerate)
  have "map fst (map (\<lambda>b. (b_id b, b))
      (map (\<lambda>(k, interference). makeBehavior now (ids k) interference) (enumerate 0 qs)))
      = map (\<lambda>x. ids (fst x)) (enumerate 0 qs)"
    by (simp add: makeBehavior_def split_def comp_def)
  also have "\<dots> = map (ids \<circ> fst) (enumerate 0 qs)" by (simp add: comp_def)
  also have "\<dots> = map ids (map fst (enumerate 0 qs))" by (simp only: map_map)
  also have "\<dots> = map ids [0..<length qs]" by (simp only: a)
  finally show ?thesis .
qed

text \<open>
  Claim C10, amended: \<^verbatim>\<open>getSystemState\<close> is not read-only. Every call recomputes the pairwise
  interference of the active signals and, for each pair that the call retains (coherence
  above the constructive threshold) whose coherence also exceeds the emergent threshold and
  that has emergent content, puts a new behaviour under the identifier drawn for it into the
  behaviour cache. When the keys of the retained pairs are distinct and the identifiers
  drawn are distinct and not yet in the cache, the list that \<^verbatim>\<open>getEmergentBehaviors\<close>
  returns grows by exactly these behaviours, one per such pair, so that it grows strictly
  whenever there is one; the active signals and the memory are unchanged; and a further call
  leaves the keys of the pattern cache as they are.
\<close>

theorem getSystemState_grows_behaviors:
  assumes keys: "distinct (map fst (retainedPairs cfg env (map_values (activeWaves st))))"
    and fresh: "distinct (map (e_behaviorIds env)
                  [0..<length (qualifyingPairs cfg env (map_values (activeWaves st)))])"
    and new: "\<forall>k < length (qualifyingPairs cfg env (map_values (activeWaves st))).
                e_behaviorIds env k \<notin> fst ` set (emergentBehaviors (interferenceEngine st))"
  shows "getEmergentBehaviors (interferenceEngine (snd (getSystemState cfg env st)))
           = getEmergentBehaviors (interferenceEngine st)
             @ map (\<lambda>(k, interference). makeBehavior (e_now env) (e_behaviorIds env k) interference)
                 (enumerate 0 (qualifyingPairs cfg env (map_values (activeWaves st))))
         \<and> s_emergentBehaviors (fst (getSystemState cfg env st))
             = length (qualifyingPairs cfg env (map_values (activeWaves st)))
         \<and> activeWaves (snd (getSystemState cfg env st)) = activeWaves st
         \<and> holographicMemory (snd (getSystemState cfg env st)) = holographicMemory st
         \<and> map fst (activePatterns (interferenceEngine
               (snd (getSystemState cfg env' (snd (getSystemState cfg env st))))))
             = map fst (activePatterns (interferenceEngine (snd (getSystemState cfg env st))))"
proof -
  let ?waves = "map_values (activeWaves st)"
  let ?retained = "retainedPairs cfg env ?waves"
  let ?qs = "qualifyingPairs cfg env ?waves"
  let ?bs = "map (\<lambda>(k, interference). makeBehavior (e_now env) (e_behaviorIds env k) interference)
               (enumerate 0 ?qs)"
  let ?kvs = "map (\<lambda>b. (b_id b, b)) ?bs"
  have results: "setAll ?retained [] = ?retained"
    using setAll_fresh[OF keys, of "[]"] by simp
  have bkeys: "map fst ?kvs = map (e_behaviorIds env) [0..<length ?qs]"
    by (rule behavior_keys)
  have d: "distinct (map fst ?kvs)" unfolding bkeys by (rule fresh)
  have disj: "fst ` set ?kvs \<inter> fst ` set (emergentBehaviors (interferenceEngine st)) = {}"
  proof (rule ccontr)
    assume "fst ` set ?kvs \<inter> fst ` set (emergentBehaviors (interferenceEngine st)) \<noteq> {}"
    then have "\<exists>i. i \<in> fst ` set ?kvs \<inter> fst ` set (emergentBehaviors (interferenceEngine st))"
      by (rule iffD2[OF ex_in_conv])
    then obtain i where i: "i \<in> fst ` set ?kvs \<inter> fst ` set (emergentBehaviors (interferenceEngine st))" ..
    from i have i1: "i \<in> fst ` set ?kvs" by (rule IntD1)
    from i have i2: "i \<in> fst ` set (emergentBehaviors (interferenceEngine st))" by (rule IntD2)
    from i1 have "i \<in> set (map fst ?kvs)" by (simp only: set_map)
    then have "i \<in> set (map (e_behaviorIds env) [0..<length ?qs])" unfolding bkeys .
    then obtain k where "k < length ?qs" "i = e_behaviorIds env k" by auto
    with new i2 show False by auto
  qed
  have eb: "emergentBehaviors (interferenceEngine (snd (getSystemState cfg env st)))
      = emergentBehaviors (interferenceEngine st) @ ?kvs"
    using setAll_fresh[OF d disj]
    by (simp add: getSystemState_state processWaveInterference_state results qualifyingPairs_def)
  have A: "getEmergentBehaviors (interferenceEngine (snd (getSystemState cfg env st)))
           = getEmergentBehaviors (interferenceEngine st) @ ?bs"
    unfolding getEmergentBehaviors_def eb by (simp add: map_values_def comp_def)
  have B: "s_emergentBehaviors (fst (getSystemState cfg env st)) = length ?qs"
    by (simp add: getSystemState_state processWaveInterference_state results qualifyingPairs_def)
  have C: "activeWaves (snd (getSystemState cfg env st)) = activeWaves st"
    and D: "holographicMemory (snd (getSystemState cfg env st)) = holographicMemory st"
    by (simp_all add: getSystemState_state)
  let ?st1 = "snd (getSystemState cfg env st)"
  have ap1: "activePatterns (interferenceEngine ?st1)
      = setAll ?retained (activePatterns (interferenceEngine st))"
    by (simp add: getSystemState_state processWaveInterference_state)
  have ap2: "activePatterns (interferenceEngine (snd (getSystemState cfg env' ?st1)))
      = setAll (retainedPairs cfg env' ?waves) (activePatterns (interferenceEngine ?st1))"
    by (simp add: getSystemState_state processWaveInterference_state)
  have "fst ` set (retainedPairs cfg env' ?waves) = fst ` set ?retained"
    using retained_keys_env_free[of cfg env' ?waves env] by (metis set_map)
  also have "\<dots> \<subseteq> fst ` set (activePatterns (interferenceEngine ?st1))"
    unfolding ap1 setAll_keys by simp
  finally have E: "map fst (activePatterns (interferenceEngine (snd (getSystemState cfg env' ?st1))))
      = map fst (activePatterns (interferenceEngine ?st1))"
    unfolding ap2 by (rule setAll_keys_present)
  from A B C D E show ?thesis by (intro conjI)
qed

lemma rust_active:
  "map_values (activeWaves rustEngine)
     = [rustWave ''wave_a'' ''frag_a'' CONFIDENCE 1000, rustWave ''wave_b'' ''frag_b'' INTENT 2000]"
  by (simp add: rustEngine_def activeWaves_propagate emptyEngine_def envAt_def map_values_def
      rustWave_def)

lemma exp_minus_one_bounds: "1 / 3 \<le> exp (- 1 :: real) \<and> exp (- 1 :: real) \<le> 1 / 2"
proof -
  have lo: "(2::real) \<le> exp 1" using exp_ge_add_one_self[of "1::real"] by simp
  have hi: "exp (1::real) \<le> 3" by (rule exp_le)
  have e: "exp (- 1 :: real) = 1 / exp 1" by (simp add: exp_minus inverse_eq_divide)
  have "1 / 3 \<le> 1 / exp (1::real)" using hi by (intro divide_left_mono) simp_all
  moreover have "1 / exp (1::real) \<le> 1 / 2" using lo by (intro divide_left_mono) simp_all
  ultimately show ?thesis unfolding e by simp
qed

lemma rust_coherence:
  "pairCoherence (rustWave ''wave_a'' ''frag_a'' CONFIDENCE 1000)
     (rustWave ''wave_b'' ''frag_b'' INTENT 2000) = Some ((1 + exp (- 1)) / 2)"
  by (simp add: pairCoherence_def calculateInterference_def Let_def frequencyCoherence_def
      rustWave_def)

lemma rust_content:
  "pairContent (rustWave ''wave_a'' ''frag_a'' CONFIDENCE 1000)
     (rustWave ''wave_b'' ''frag_b'' INTENT 2000) \<noteq> None"
  using exp_minus_one_bounds
  by (simp add: pairContent_def calculateInterference_def Let_def frequencyCoherence_def
      rustWave_def synthesizeContent_def toLowerCase_def toLowerChar_def isSpace_def)

lemma rust_not_retained:
  "retainedPairs swappedThresholdConfig env
     [rustWave ''wave_a'' ''frag_a'' CONFIDENCE 1000, rustWave ''wave_b'' ''frag_b'' INTENT 2000] = []"
  using exp_minus_one_bounds
  by (simp add: retainedPairs_def List.map_filter_def calculateInterference_def Let_def
      frequencyCoherence_def rustWave_def swappedThresholdConfig_def defaultHolographicConfig_def)

lemma getSystemState_interference:
  "interferenceEngine (snd (getSystemState cfg env st))
     = snd (processWaveInterference cfg env (map_values (activeWaves st)) (interferenceEngine st))"
  by (simp add: getSystemState_state)

text \<open>
  Claim C10, as stated: every pair whose coherence exceeds the emergent threshold and that
  yields emergent content gets a new behaviour. It fails when the emergent threshold is the
  lower one: with the constructive threshold at 0.8 and the emergent threshold at 0.6, the
  two waves of the engine (same text and region, frequencies 2.0 and 1.0) have coherence
  \<open>(1 + exp (- 1)) / 2\<close>, about 0.68, and emergent content, but the pair is not retained and
  \<^verbatim>\<open>getSystemState\<close> adds no behaviour.
\<close>

theorem emergent_pair_not_retained:
  "map_values (activeWaves rustEngine)
     = [rustWave ''wave_a'' ''frag_a'' CONFIDENCE 1000, rustWave ''wave_b'' ''frag_b'' INTENT 2000]
   \<and> pairCoherence (rustWave ''wave_a'' ''frag_a'' CONFIDENCE 1000)
        (rustWave ''wave_b'' ''frag_b'' INTENT 2000) = Some ((1 + exp (- 1)) / 2)
   \<and> emergentThreshold swappedThresholdConfig < (1 + exp (- 1)) / 2
   \<and> pairContent (rustWave ''wave_a'' ''frag_a'' CONFIDENCE 1000)
        (rustWave ''wave_b'' ''frag_b'' INTENT 2000) \<noteq> None
   \<and> s_emergentBehaviors (fst (getSystemState swappedThresholdConfig (envAt 3000 ''c'') rustEngine)) = 0
   \<and> getEmergentBehaviors (interferenceEngine
        (snd (getSystemState swappedThresholdConfig (envAt 3000 ''c'') rustEngine)))
       = getEmergentBehaviors (interferenceEngine rustEngine)"
proof -
  have thr: "emergentThreshold swappedThresholdConfig < (1 + exp (- 1)) / 2"
    using exp_minus_one_bounds
    by (simp add: swappedThresholdConfig_def defaultHolographicConfig_def)
  have none: "retainedPairs swappedThresholdConfig (envAt 3000 ''c'')
      (map_values (activeWaves rustEngine)) = []"
    unfolding rust_active by (rule rust_not_retained)
  have count: "s_emergentBehaviors (fst (getSystemState swappedThresholdConfig (envAt 3000 ''c'')
      rustEngine)) = 0"
    unfolding getSystemState_state processWaveInterference_state none
    by (simp add: setAll_def map_values_def)
  have same: "getEmergentBehaviors (interferenceEngine
        (snd (getSystemState swappedThresholdConfig (envAt 3000 ''c'') rustEngine)))
       = getEmergentBehaviors (interferenceEngine rustEngine)"
    unfolding getEmergentBehaviors_def getSystemState_interference processWaveInterference_state none
    by (simp add: setAll_def map_values_def)
  from rust_active rust_coherence thr rust_content count same show ?thesis by (intro conjI)
qed

lemma two_wave_retained:
  "\<exists>kp. retainedPairs defaultHolographicConfig env (map_values (activeWaves twoWaveEngine)) = [kp]
        \<and> qualifies defaultHolographicConfig (snd kp)"
proof -
  let ?ws = "[plainWave ''w1'' 0 1 ''Rust and Go are great'',
         plainWave ''w2'' 0 1 ''Rust is excellent for systems work'']"
  have ws: "map_values (activeWaves twoWaveEngine) = ?ws"
    by (simp add: twoWaveEngine_def map_values_def)
  from rust_pair[of env] obtain kp where kp: "retainedPairs defaultHolographicConfig env ?ws = [kp]"
    and c: "p_coherenceLevel (snd kp) = 1"
    and e: "p_emergentContent (snd kp) =
       Some (''Emergent insight: Connection between '' @ quote @ ''Rust and Go are great'' @ quote
             @ '' and '' @ quote @ ''Rust is excellent for systems work'' @ quote
             @ '' through common elements: rust'')"
    by auto
  have "qualifies defaultHolographicConfig (snd kp)"
    by (simp add: qualifies_def c e defaultHolographicConfig_def)
  with kp show ?thesis unfolding ws by blast
qed

theorem getSystemState_grows_behaviors_witness:
  "length (getEmergentBehaviors (interferenceEngine twoWaveEngine)) = 0
   \<and> length (getEmergentBehaviors (interferenceEngine
        (snd (getSystemState defaultHolographicConfig (envAt 3000 ''c'') twoWaveEngine)))) = 1
   \<and> length (getEmergentBehaviors (interferenceEngine
        (snd (getSystemState defaultHolographicConfig (envAt 4000 ''d'')
           (snd (getSystemState defaultHolographicConfig (envAt 3000 ''c'') twoWaveEngine)))))) = 2
   \<and> map fst (activePatterns (interferenceEngine
        (snd (getSystemState defaultHolographicConfig (envAt 4000 ''d'')
           (snd (getSystemState defaultHolographicConfig (envAt 3000 ''c'') twoWaveEngine))))))
       = map fst (activePatterns (interferenceEngine
           (snd (getSystemState defaultHolographicConfig (envAt 3000 ''c'') twoWaveEngine))))"
proof -
  let ?cfg = defaultHolographicConfig
  let ?c = "envAt 3000 ''c''" and ?d = "envAt 4000 ''d''"
  let ?st1 = "snd (getSystemState ?cfg ?c twoWaveEngine)"
  have zero: "getEmergentBehaviors (interferenceEngine twoWaveEngine) = []"
    by (simp add: twoWaveEngine_def emptyEngine_def getEmergentBehaviors_def map_values_def)
  have eb0: "emergentBehaviors (interferenceEngine twoWaveEngine) = []"
    by (simp add: twoWaveEngine_def emptyEngine_def)
  from two_wave_retained[of ?c] obtain kp where
    r1: "retainedPairs ?cfg ?c (map_values (activeWaves twoWaveEngine)) = [kp]"
    and q1: "qualifies ?cfg (snd kp)" by blast
  have qp1: "qualifyingPairs ?cfg ?c (map_values (activeWaves twoWaveEngine)) = [snd kp]"
    unfolding qualifyingPairs_def r1 by (simp add: q1 map_values_def)
  have k1: "distinct (map fst (retainedPairs ?cfg ?c (map_values (activeWaves twoWaveEngine))))"
    unfolding r1 by simp
  have f1: "distinct (map (e_behaviorIds ?c)
      [0..<length (qualifyingPairs ?cfg ?c (map_values (activeWaves twoWaveEngine)))])"
    by (simp add: qp1)
  have n1: "\<forall>k < length (qualifyingPairs ?cfg ?c (map_values (activeWaves twoWaveEngine))).
      e_behaviorIds ?c k \<notin> fst ` set (emergentBehaviors (interferenceEngine twoWaveEngine))"
    by (simp add: eb0)
  note T1 = getSystemState_grows_behaviors[OF k1 f1 n1, of ?d]
  from T1[THEN conjunct1]
  have g1: "getEmergentBehaviors (interferenceEngine ?st1)
      = [makeBehavior (e_now ?c) (e_behaviorIds ?c 0) (snd kp)]"
    by (simp add: zero qp1)
  from T1[THEN conjunct2, THEN conjunct2, THEN conjunct1]
  have w1: "activeWaves ?st1 = activeWaves twoWaveEngine" .
  have eb1: "fst ` set (emergentBehaviors (interferenceEngine ?st1)) = {''emergent_c''}"
  proof -
    have "map_values (emergentBehaviors (interferenceEngine ?st1))
        = [makeBehavior (e_now ?c) (e_behaviorIds ?c 0) (snd kp)]"
      using g1 by (simp add: getEmergentBehaviors_def)
    moreover have "emergentBehaviors (interferenceEngine ?st1)
        = setAll [(e_behaviorIds ?c 0, makeBehavior (e_now ?c) (e_behaviorIds ?c 0) (snd kp))] []"
      unfolding getSystemState_interference processWaveInterference_state r1
      by (simp add: setAll_def map_values_def q1 eb0 makeBehavior_def)
    ultimately show ?thesis by (simp add: setAll_def envAt_def)
  qed
  from two_wave_retained[of ?d] obtain kp' where
    r2: "retainedPairs ?cfg ?d (map_values (activeWaves twoWaveEngine)) = [kp']"
    and q2: "qualifies ?cfg (snd kp')" by blast
  have qp2: "qualifyingPairs ?cfg ?d (map_values (activeWaves ?st1)) = [snd kp']"
    unfolding qualifyingPairs_def w1 r2 by (simp add: q2 map_values_def)
  have k2: "distinct (map fst (retainedPairs ?cfg ?d (map_values (activeWaves ?st1))))"
    unfolding w1 r2 by simp
  have f2: "distinct (map (e_behaviorIds ?d)
      [0..<length (qualifyingPairs ?cfg ?d (map_values (activeWaves ?st1)))])"
    by (simp add: qp2)
  have n2: "\<forall>k < length (qualifyingPairs ?cfg ?d (map_values (activeWaves ?st1))).
      e_behaviorIds ?d k \<notin> fst ` set (emergentBehaviors (interferenceEngine ?st1))"
    unfolding qp2 eb1 by (simp add: envAt_def)
  note T2 = getSystemState_grows_behaviors[OF k2 f2 n2]
  from T2[THEN conjunct1]
  have g2: "length (getEmergentBehaviors (interferenceEngine (snd (getSystemState ?cfg ?d ?st1)))) = 2"
    by (simp add: g1 qp2)
  from T1[THEN conjunct2, THEN conjunct2, THEN conjunct2, THEN conjunct2]
  have p: "map fst (activePatterns (interferenceEngine (snd (getSystemState ?cfg ?d ?st1))))
       = map fst (activePatterns (interferenceEngine ?st1))" .
  have l0: "length (getEmergentBehaviors (interferenceEngine twoWaveEngine)) = 0"
    by (simp add: zero)
  have l1: "length (getEmergentBehaviors (interferenceEngine ?st1)) = 1" by (simp add: g1)
  from l0 l1 g2 p show ?thesis by (intro conjI)
qed

subsection \<open>Eviction\<close>

text \<open>
  Claim C2, at a failing input: with a cap of two fragments per region, three fragments are
  stored into one region, the first two within the same millisecond. The comparator of
  \<^verbatim>\<open>cleanupOldFragments\<close> gives 0 for the two, the stable sort leaves them in insertion
  order, and the cut removes the second, which is newer than the first: the fragments that
  remain are the first and the third, not the two most recently created.
\<close>

theorem eviction_removes_newest_on_tie:
  "map fst (fragments
     (snd (storeFragment capTwoConfig 1001 ''frag_c'' ''third insight'' ''InterferenceEngine'' MEMORY
             0.9 ''session_c''
        (snd (storeFragment capTwoConfig 1000 ''frag_b'' ''second insight'' ''InterferenceEngine''
                MEMORY 0.9 ''session_b''
           (snd (storeFragment capTwoConfig 1000 ''frag_a'' ''first insight''
                   ''InterferenceEngine'' MEMORY 0.9 ''session_a'' emptyMemory)))))))
   = [''frag_a'', ''frag_c'']"
  by (simp add: storeFragment_def Let_def updateCoherenceMap_def persistFragment_def
      cleanupOldFragments_def capTwoConfig_def defaultHolographicConfig_def emptyMemory_def
      map_values_def getPersistedFragments_def withTimestamp_def sevenDays_def newFragment_def
      map_delete_def)

subsection \<open>Idempotence of the reconstruction\<close>

lemma aging_fragments:
  "map_values (fragments agingMemory)
     = [newFragment 0 ''frag_a'' ''true true true'' ''InnerBrain'' MEMORY 1 ''session_a'',
        newFragment 1 ''frag_b'' ''true true true'' ''InnerBrain'' MEMORY 1 ''session_b'',
        newFragment 2 ''frag_c'' ''tru'' ''FrontalLobe'' CONFIDENCE 1 ''session_c'']"
  "reconstructionCache agingMemory = []"
  by (simp_all add: agingMemory_def storeFragment_def Let_def updateCoherenceMap_def
      persistFragment_def cleanupOldFragments_def defaultHolographicConfig_def emptyMemory_def
      map_values_def getPersistedFragments_def withTimestamp_def sevenDays_def newFragment_def
      map_delete_def)

lemma aging_relevant_before:
  "findRelevantFragments 43200001 (Context ''true'' None) agingMemory
     = [newFragment 0 ''frag_a'' ''true true true'' ''InnerBrain'' MEMORY 1 ''session_a'',
        newFragment 1 ''frag_b'' ''true true true'' ''InnerBrain'' MEMORY 1 ''session_b'',
        newFragment 2 ''frag_c'' ''tru'' ''FrontalLobe'' CONFIDENCE 1 ''session_c'']"
  unfolding findRelevantFragments.simps aging_fragments
  by (simp add: relevanceScore_def Let_def newFragment_def toLowerCase_def toLowerChar_def
      startsWith_def)

lemma aging_relevant_after:
  "findRelevantFragments 43200003 (Context ''true'' None) agingMemory
     = [newFragment 0 ''frag_a'' ''true true true'' ''InnerBrain'' MEMORY 1 ''session_a'',
        newFragment 1 ''frag_b'' ''true true true'' ''InnerBrain'' MEMORY 1 ''session_b'']"
  unfolding findRelevantFragments.simps aging_fragments
  by (simp add: relevanceScore_def Let_def newFragment_def toLowerCase_def toLowerChar_def
      startsWith_def)

lemma coherence_same:
  "calculateFragmentCoherence
     (newFragment 0 ''frag_a'' ''true true true'' ''InnerBrain'' MEMORY 1 ''session_a'')
     (newFragment 1 ''frag_b'' ''true true true'' ''InnerBrain'' MEMORY 1 ''session_b'') = 1"
  by (simp add: calculateFragmentCoherence_def Let_def newFragment_def toLowerCase_def
      toLowerChar_def)

lemma exp_seventeen_tenths: "exp (- (17 / 10) :: real) < 1 / 4"
proof -
  have "1 + (17 / 10) + (17 / 10)\<^sup>2 / 2 \<le> exp (17 / 10 :: real)"
    by (rule exp_lower_Taylor_quadratic) simp
  then have "4 < exp (17 / 10 :: real)" by (simp add: power2_eq_square)
  then have "1 / exp (17 / 10 :: real) < 1 / 4"
    by (intro divide_strict_left_mono) simp_all
  then show ?thesis by (simp add: exp_minus inverse_eq_divide)
qed

lemma coherence_other:
  "calculateFragmentCoherence
     (newFragment t fid ''true true true'' ''InnerBrain'' MEMORY 1 sess)
     (newFragment 2 ''frag_c'' ''tru'' ''FrontalLobe'' CONFIDENCE 1 ''session_c'') < 3 / 8"
proof -
  let ?p = "cos \<bar>calculatePhase ''true true true'' ''InnerBrain'' - calculatePhase ''tru'' ''FrontalLobe''\<bar>"
  have c: "calculateFragmentCoherence
     (newFragment t fid ''true true true'' ''InnerBrain'' MEMORY 1 sess)
     (newFragment 2 ''frag_c'' ''tru'' ''FrontalLobe'' CONFIDENCE 1 ''session_c'')
     = exp (- (17 / 10)) * 0.3 + ?p * 0.3"
    by (simp add: calculateFragmentCoherence_def Let_def newFragment_def toLowerCase_def
        toLowerChar_def)
  have gen: "e * 0.3 + x * 0.3 < 3 / 8" if "e < 1 / 4" "x \<le> 1" for e x :: real
    using that by linarith
  show ?thesis unfolding c by (rule gen[OF exp_seventeen_tenths cos_le_one])
qed

lemma viability_three:
  "assessReconstructionViability [a, b, c]
     = (calculateFragmentCoherence a b + calculateFragmentCoherence a c
        + calculateFragmentCoherence b c) / 3 * 0.7 + 0.18"
  by (simp add: assessReconstructionViability_def Let_def)

lemma viability_two:
  "assessReconstructionViability [a, b] = calculateFragmentCoherence a b * 0.7 + 0.12"
  by (simp add: assessReconstructionViability_def Let_def)

lemma reconstruct_miss_low:
  "c \<noteq> Unserializable \<Longrightarrow> map_of (reconstructionCache s) (stringify c) = None \<Longrightarrow>
   findRelevantFragments now c s = [] \<or> assessReconstructionViability (findRelevantFragments now c s) < r \<Longrightarrow>
   reconstructInformation now c r s = (Inr None, s)"
  by (auto simp: reconstructInformation_def Let_def simp del: findRelevantFragments.simps)

lemma reconstruct_miss_viable:
  "c \<noteq> Unserializable \<Longrightarrow> map_of (reconstructionCache s) (stringify c) = None \<Longrightarrow>
   findRelevantFragments now c s \<noteq> [] \<Longrightarrow>
   \<not> assessReconstructionViability (findRelevantFragments now c s) < r \<Longrightarrow>
   reconstructInformation now c r s
     = (Inr (Some (performHolographicReconstruction (findRelevantFragments now c s))),
        s\<lparr>reconstructionCache :=
            map_set (stringify c) (performHolographicReconstruction (findRelevantFragments now c s))
              (reconstructionCache s)\<rparr>)"
  by (simp add: reconstructInformation_def Let_def del: findRelevantFragments.simps)

lemma aging_text:
  "performHolographicReconstruction
     [newFragment 0 ''frag_a'' ''true true true'' ''InnerBrain'' MEMORY 1 ''session_a'',
      newFragment 1 ''frag_b'' ''true true true'' ''InnerBrain'' MEMORY 1 ''session_b'']
   = ''true true true''"
  by (simp add: performHolographicReconstruction_def uniqueInOrder_def Let_def newFragment_def
      startsWith_def trim_def isSpace_def)

lemma aging_null_before:
  "reconstructInformation 43200001 (Context ''true'' None) 0.6 agingMemory = (Inr None, agingMemory)"
proof -
  let ?c = "Context ''true'' None"
  have ne: "?c \<noteq> Unserializable" by simp
  have miss: "map_of (reconstructionCache agingMemory) (stringify ?c) = None"
    by (simp add: aging_fragments)
  have gen: "(1 + x + y) / 3 * 0.7 + 0.18 < (0.6::real)" if "x < 3 / 8" "y < 3 / 8" for x y :: real
    using that by (simp add: divide_simps)
  have low: "assessReconstructionViability (findRelevantFragments 43200001 ?c agingMemory) < 0.6"
    unfolding aging_relevant_before viability_three coherence_same
    by (rule gen[OF coherence_other coherence_other])
  show ?thesis
    by (rule reconstruct_miss_low[OF ne miss disjI2[OF low]])
qed

lemma aging_text_after:
  "reconstructInformation 43200003 (Context ''true'' None) 0.6 agingMemory
     = (Inr (Some ''true true true''),
        agingMemory\<lparr>reconstructionCache := [(''true'', ''true true true'')]\<rparr>)"
proof -
  let ?c = "Context ''true'' None"
  have ne: "?c \<noteq> Unserializable" by simp
  have miss: "map_of (reconstructionCache agingMemory) (stringify ?c) = None"
    by (simp add: aging_fragments)
  have rel: "findRelevantFragments 43200003 ?c agingMemory \<noteq> []"
    unfolding aging_relevant_after by simp
  have ok: "\<not> assessReconstructionViability (findRelevantFragments 43200003 ?c agingMemory) < 0.6"
    unfolding aging_relevant_after viability_two coherence_same by simp
  show ?thesis
    unfolding reconstruct_miss_viable[OF ne miss rel ok] aging_relevant_after aging_text
    by (simp add: aging_fragments)
qed

text \<open>
  Claim C3, as stated: two consecutive calls with the same context and an unchanged fragment
  set return identical results, also when the first result is \<^verbatim>\<open>null\<close>. It fails, because
  the relevance of a fragment depends on \<^verbatim>\<open>Date.now()\<close> and a \<^verbatim>\<open>null\<close> result is not
  cached: three fragments are just relevant twelve hours after they were stored, which makes
  the viability too low and the first call return \<^verbatim>\<open>null\<close>; two milliseconds later the third
  fragment is no longer relevant, the two that remain are coherent, and the second call
  returns text. The first call leaves the memory as it was.
\<close>

theorem reconstruction_changes_with_the_clock:
  "reconstructInformation 43200001 (Context ''true'' None) 0.6 agingMemory = (Inr None, agingMemory)
   \<and> reconstructInformation 43200003 (Context ''true'' None) 0.6
         (snd (reconstructInformation 43200001 (Context ''true'' None) 0.6 agingMemory))
       = (Inr (Some ''true true true''),
          agingMemory\<lparr>reconstructionCache := [(''true'', ''true true true'')]\<rparr>)"
  unfolding aging_null_before snd_conv aging_text_after by simp

text \<open>
  Claim C3, amended: two consecutive calls of \<^verbatim>\<open>reconstructInformation\<close> with the same
  context and the same required coherence, at the same reading of the clock, return the same
  result (text, \<^verbatim>\<open>null\<close> or the rejection for an unserializable context), and neither
  changes the fragment set. When the first call returns text, every later call with that
  context returns the same text from the cache and leaves the memory unchanged, at whatever
  clock reading and required coherence.
\<close>

theorem reconstruct_idempotent:
  "(reconstructInformation now c r s = (res, s') \<longrightarrow>
      reconstructInformation now c r s' = (res, s') \<and> fragments s' = fragments s)
   \<and> (reconstructInformation now c r s = (Inr (Some t), s') \<longrightarrow>
        (\<forall>now' r'. reconstructInformation now' c r' s' = (Inr (Some t), s')))"
proof -
  have cached: "reconstructInformation now' c r' s' = (Inr (Some t), s')"
    if "reconstructInformation now c r s = (Inr (Some t), s')" for now' r' t
  proof -
    from reconstruct_text_cached[OF that]
    have "c \<noteq> Unserializable" and "map_of (reconstructionCache s') (stringify c) = Some t"
      by simp_all
    then show ?thesis by (rule reconstruct_hit)
  qed
  have frags: "fragments (snd (reconstructInformation now c r s)) = fragments s"
    by (simp add: reconstructInformation_def Let_def split: option.splits
        del: findRelevantFragments.simps)
  have same: "reconstructInformation now c r s' = (res, s') \<and> fragments s' = fragments s"
    if h: "reconstructInformation now c r s = (res, s')"
  proof -
    from frags h have f: "fragments s' = fragments s" by simp
    have "reconstructInformation now c r s' = (res, s')"
    proof (cases res)
      case (Inl e)
      with h have "c = Unserializable"
        by (auto simp: reconstructInformation_def Let_def split: if_splits option.splits
            simp del: findRelevantFragments.simps)
      with h show ?thesis by (simp add: reconstructInformation_def)
    next
      case (Inr v)
      show ?thesis
      proof (cases v)
        case None
        with Inr h have "fst (reconstructInformation now c r s) = Inr None" by simp
        from reconstruct_null_unchanged[OF this] h have "s' = s" by simp
        with h show ?thesis by simp
      next
        case (Some t)
        with Inr h cached[of t now r] show ?thesis by simp
      qed
    qed
    with f show ?thesis by simp
  qed
  from same cached show ?thesis by blast
qed

theorem reconstruct_idempotent_witness:
  "reconstructInformation 43200003 (Context ''true'' None) 0.6 agingMemory
     = (Inr (Some ''true true true''),
        agingMemory\<lparr>reconstructionCache := [(''true'', ''true true true'')]\<rparr>)
   \<and> reconstructInformation 43200003 (Context ''true'' None) 0.6
        (agingMemory\<lparr>reconstructionCache := [(''true'', ''true true true'')]\<rparr>)
     = (Inr (Some ''true true true''),
        agingMemory\<lparr>reconstructionCache := [(''true'', ''true true true'')]\<rparr>)
   \<and> fragments (agingMemory\<lparr>reconstructionCache := [(''true'', ''true true true'')]\<rparr>)
     = fragments agingMemory
   \<and> reconstructInformation 43200001 (Context ''true'' None) 0.9
        (agingMemory\<lparr>reconstructionCache := [(''true'', ''true true true'')]\<rparr>)
     = (Inr (Some ''true true true''),
        agingMemory\<lparr>reconstructionCache := [(''true'', ''true true true'')]\<rparr>)"
proof -
  note h = aging_text_after
  note i = reconstruct_idempotent[where now = 43200003 and c = "Context ''true'' None"
      and r = "0.6" and s = agingMemory and res = "Inr (Some ''true true true'')"
      and s' = "agingMemory\<lparr>reconstructionCache := [(''true'', ''true true true'')]\<rparr>"
      and t = "''true true true''"]
  note a = i[THEN conjunct1, THEN mp, OF h]
  note b = i[THEN conjunct2, THEN mp, OF h, THEN spec, THEN spec]
  from h a b[of 43200001 "0.9"] show ?thesis by (intro conjI) (erule conjunct1 conjunct2 | assumption)+
qed

end
